theory Spec2Isabelle
  imports Main
begin

section \<open>JavaScript strings and request fields\<close>

text \<open>
  A JavaScript string whose code units are all below 256 is a \<^typ>\<open>string\<close>, one
  \<^typ>\<open>char\<close> per code unit. On that range \<open>String.prototype.toLowerCase\<close> moves
  \<open>A\<close>--\<open>Z\<close> (65--90) and the upper-case letters of Latin-1 (192--222 without the
  multiplication sign 215) up by 32, and \<open>String.prototype.trim\<close> strips the code
  units 9--13, 32 and 160 from both ends.
\<close>

definition lower_char :: "char \<Rightarrow> char" where
  "lower_char c =
     (let n = (of_char c :: nat)
      in if (65 \<le> n \<and> n \<le> 90) \<or> (192 \<le> n \<and> n \<le> 222 \<and> n \<noteq> 215)
         then char_of (n + 32) else c)"

definition toLowerCase :: "string \<Rightarrow> string" where
  "toLowerCase s = map lower_char s"

definition white_space :: "char \<Rightarrow> bool" where
  "white_space c =
     (let n = (of_char c :: nat) in (9 \<le> n \<and> n \<le> 13) \<or> n = 32 \<or> n = 160)"

definition trim :: "string \<Rightarrow> string" where
  "trim s = rev (dropWhile white_space (rev (dropWhile white_space s)))"

text \<open>
  \<open>s.split(sep)\<close> for a one-character separator: the pieces between the
  separators, so a string without the separator is its own single piece and
  the empty string splits into one empty piece.
\<close>

fun js_split :: "char \<Rightarrow> string \<Rightarrow> string list" where
  "js_split sep [] = [[]]"
| "js_split sep (c # cs) =
     (if c = sep then [] # js_split sep cs
      else (case js_split sep cs of
              [] \<Rightarrow> [[c]]
            | piece # pieces \<Rightarrow> (c # piece) # pieces))"

text \<open>\<open>xs[i]\<close>: \<open>undefined\<close> (here \<open>None\<close>) beyond the end of the array.\<close>

definition index :: "'a list \<Rightarrow> nat \<Rightarrow> 'a option" where
  "index xs i = (if i < length xs then Some (xs ! i) else None)"

text \<open>
  A field of a JSON body or a request header is a string or is missing
  (\<open>None\<close> stands for \<open>undefined\<close> and \<open>null\<close>). \<open>!v\<close> holds of a missing value
  and of the empty string.
\<close>

definition falsy :: "string option \<Rightarrow> bool" where
  "falsy v = (v = None \<or> v = Some [])"

definition str :: "string option \<Rightarrow> string" where
  "str v = (case v of None \<Rightarrow> [] | Some s \<Rightarrow> s)"

section \<open>Password hashing (bcryptjs)\<close>

text \<open>
  The \<open>password\<close> path of the schema is a \<open>String\<close>: it can hold any text. A bcrypt
  digest is kept symbolic, as the term \<open>Bcrypt rounds salt plaintext\<close>; only
  \<open>bcrypt_compare\<close> looks inside it.
\<close>

datatype password_string = Plaintext string | Bcrypt nat string string

text \<open>
  Modelled from the spec: \<open>bcrypt.hash\<close> of the bcryptjs package, which is not part of
  the repository (section 4.2, \<open>hash(plaintext) -> hash\<close>: salted, with the work factor
  and the salt embedded in the result). The salt that the library draws at random is
  an argument.
\<close>

definition bcrypt_hash :: "string \<Rightarrow> nat \<Rightarrow> string \<Rightarrow> password_string" where
  "bcrypt_hash plaintext saltRounds salt = Bcrypt saltRounds salt plaintext"

text \<open>
  Modelled from the spec: \<open>bcrypt.compare\<close> of the bcryptjs package (section 4.2,
  \<open>verify(plaintext, hash)\<close>: true iff the plaintext, hashed with the parameters
  embedded in \<open>hash\<close>, matches; a wrong password gives false, never an error). A
  string that is not a digest matches nothing.
\<close>

fun bcrypt_compare :: "string \<Rightarrow> password_string \<Rightarrow> bool" where
  "bcrypt_compare candidate (Bcrypt saltRounds salt plaintext) =
     (bcrypt_hash candidate saltRounds salt = Bcrypt saltRounds salt plaintext)"
| "bcrypt_compare candidate (Plaintext s) = False"

text \<open>The length of the stored text; a bcrypt digest has 60 characters.\<close>

fun password_length :: "password_string \<Rightarrow> nat" where
  "password_length (Plaintext s) = length s"
| "password_length (Bcrypt saltRounds salt plaintext) = 60"

section \<open>The user collection (Mongoose)\<close>

record user_doc =
  user_id :: nat
  fullName :: string
  username :: string
  email :: string
  password :: password_string
  createdAt :: nat
  updatedAt :: nat

text \<open>
  What the handlers read from outside: the clock (\<open>Date.now()\<close>, in milliseconds),
  the salt drawn by \<open>bcrypt.hash\<close> and the \<open>ObjectId\<close> drawn by \<open>new User\<close>.
\<close>

record env =
  now :: nat
  salt :: string
  objectId :: nat

text \<open>
  The schema options \<open>trim: true\<close> and \<open>lowercase: true\<close> that \<open>userSchema\<close> declares
  are setters of the path. Mongoose runs them when a document is built and when a
  query filter is cast to the schema.
\<close>

definition set_fullName :: "string \<Rightarrow> string" where
  "set_fullName v = trim v"

definition set_username :: "string \<Rightarrow> string" where
  "set_username v = toLowerCase (trim v)"

definition set_email :: "string \<Rightarrow> string" where
  "set_email v = toLowerCase (trim v)"

text \<open>
  Modelled from the spec: \<open>new User({fullName, username, email, password})\<close> of the
  mongoose package, which is not part of the repository (section 4.4, step 4: the
  record has the trimmed \<open>fullName\<close> and the lower-case \<open>username\<close> and \<open>email\<close>),
  by the setters of \<open>userSchema\<close>.
\<close>

definition new_User :: "nat \<Rightarrow> string \<Rightarrow> string \<Rightarrow> string \<Rightarrow> password_string \<Rightarrow> user_doc" where
  "new_User oid fullName_v username_v email_v password_v =
     \<lparr>user_id = oid, fullName = set_fullName fullName_v, username = set_username username_v,
      email = set_email email_v, password = password_v, createdAt = 0, updatedAt = 0\<rparr>"

text \<open>
  Modelled from the spec: \<open>User.findOne({$or: [{email: e}, {username: n}]})\<close> of the
  mongoose package (section 4.1, \<open>findByEmailOrUsername\<close>: a case-insensitive lookup
  that returns at most one record, none if absent). The filter is cast by the setters
  of \<open>userSchema\<close>, then the first document of the collection, in insertion order,
  that matches one of the two branches is returned.
\<close>

definition findOne_email_or_username :: "user_doc list \<Rightarrow> string \<Rightarrow> string \<Rightarrow> user_doc option" where
  "findOne_email_or_username db e n =
     find (\<lambda>u. email u = set_email e \<or> username u = set_username n) db"

text \<open>
  Modelled from the spec: \<open>User.findById\<close> of the mongoose package (section 4.1,
  \<open>findById\<close>: none if absent).
\<close>

definition findById :: "user_doc list \<Rightarrow> nat \<Rightarrow> user_doc option" where
  "findById db i = find (\<lambda>u. user_id u = i) db"

datatype mongo_error = ValidationError | DuplicateKey

text \<open>
  Modelled from the spec: \<open>doc.save()\<close> of the mongoose package (section 4.1, \<open>create\<close>:
  fails if the username or the email already exists, otherwise persists the record
  and returns it with its id and \<open>createdAt\<close>), with what \<open>userSchema\<close> declares:
  the validators (\<open>required\<close> on the four paths, \<open>minlength: 6\<close> on \<open>password\<close>)
  run first, then the insertion, which the unique indexes on \<open>_id\<close>, \<open>username\<close>
  and \<open>email\<close> refuse for a value that a stored document has; \<open>timestamps: true\<close>
  stamps the document.
\<close>

definition save :: "nat \<Rightarrow> user_doc list \<Rightarrow> user_doc \<Rightarrow> mongo_error + (user_doc list \<times> user_doc)" where
  "save clock db doc =
     (if fullName doc = [] \<or> username doc = [] \<or> email doc = []
         \<or> password_length (password doc) < 6
      then Inl ValidationError
      else if \<exists>u \<in> set db. user_id u = user_id doc \<or> username u = username doc \<or> email u = email doc
      then Inl DuplicateKey
      else (let stored = doc\<lparr>createdAt := clock, updatedAt := clock\<rparr>
            in Inr (db @ [stored], stored)))"

section \<open>Session tokens (jsonwebtoken)\<close>

record jwt_payload =
  userId :: nat
  jwt_username :: string
  jwt_email :: string
  iat :: nat
  exp :: nat

text \<open>
  A token is kept symbolic: the payload and the key its signature was made with.
  Its compact serialisation is a string; \<open>decode\<close>, an argument of the verifier,
  reads a string back (\<open>None\<close> for a malformed one).
\<close>

datatype jwt = Signed (token_key: string) (token_claims: jwt_payload)

datatype jwt_error = JsonWebTokenError | TokenExpiredError

definition JWT_SECRET :: string where
  "JWT_SECRET = ''aakar3d_secret_key_2025''"

text \<open>\<open>expiresIn: '7d'\<close>, in seconds.\<close>

definition expiresIn_7d :: nat where
  "expiresIn_7d = 7 * 24 * 60 * 60"

text \<open>
  Modelled from the spec: \<open>jwt.sign\<close> of the jsonwebtoken package, which is not part of
  the repository (section 4.3, \<open>issue\<close>: embeds the claims plus \<open>issuedAt\<close> and
  \<open>expiresAt\<close> = now + the lifetime, signed with the secret key). Times in a token
  are whole seconds.
\<close>

definition jwt_sign :: "nat \<times> string \<times> string \<Rightarrow> string \<Rightarrow> nat \<Rightarrow> nat \<Rightarrow> jwt" where
  "jwt_sign claims secret expiresIn clock =
     (case claims of (uid, uname, mail) \<Rightarrow>
        Signed secret \<lparr>userId = uid, jwt_username = uname, jwt_email = mail,
                       iat = clock div 1000, exp = clock div 1000 + expiresIn\<rparr>)"

text \<open>
  Modelled from the spec: \<open>jwt.verify\<close> of the jsonwebtoken package (section 4.3,
  \<open>verify\<close>: fails if the token is malformed, if the signature does not match, or if
  it is expired; returns the embedded claims on success).
\<close>

definition jwt_verify :: "(string \<Rightarrow> jwt option) \<Rightarrow> string \<Rightarrow> string \<Rightarrow> nat \<Rightarrow> jwt_error + jwt_payload" where
  "jwt_verify decode token secret clock =
     (case decode token of
        None \<Rightarrow> Inl JsonWebTokenError
      | Some (Signed k payload) \<Rightarrow>
          if k \<noteq> secret then Inl JsonWebTokenError
          else if exp payload \<le> clock div 1000 then Inl TokenExpiredError
          else Inr payload)"

section \<open>Responses\<close>

text \<open>The values a field of a returned user object can hold.\<close>

datatype field = ObjectId nat | Str string | Date nat | Pwd password_string

text \<open>
  \<open>res.status(s).json({error: m})\<close>, \<open>res.status(s).json({message, token, user})\<close>
  and \<open>res.json({user})\<close>; a user object is the list of its keys and values.
\<close>

datatype response =
    Json_error nat string
  | Json_auth nat string jwt "(string \<times> field) list"
  | Json_user nat "(string \<times> field) list"

fun status :: "response \<Rightarrow> nat" where
  "status (Json_error s m) = s"
| "status (Json_auth s m t u) = s"
| "status (Json_user s u) = s"

fun issued_token :: "response \<Rightarrow> jwt option" where
  "issued_token (Json_auth s m t u) = Some t"
| "issued_token r = None"

fun user_object :: "response \<Rightarrow> (string \<times> field) list" where
  "user_object (Json_auth s m t u) = u"
| "user_object (Json_user s u) = u"
| "user_object (Json_error s m) = []"

text \<open>
  A key or a value of a user object that gives the stored password away, and a
  response whose user object has one.
\<close>

fun is_password_field :: "string \<times> field \<Rightarrow> bool" where
  "is_password_field (k, Pwd p) = True"
| "is_password_field (k, v) = (k = ''password'' \<or> k = ''passwordHash'')"

definition exposes_password :: "response \<Rightarrow> bool" where
  "exposes_password r = list_ex is_password_field (user_object r)"

section \<open>The routes of server.js\<close>

text \<open>
  The second half of the signup handler, from \<open>// Hash password\<close> on; any
  error thrown by \<open>save\<close> ends in the \<open>catch\<close> block.
\<close>

definition create_account :: "env \<Rightarrow> user_doc list \<Rightarrow> (string \<rightharpoonup> string) \<Rightarrow> user_doc list \<times> response" where
  "create_account e db body =
     (let saltRounds = 12;
          hashedPassword = bcrypt_hash (str (body ''password'')) saltRounds (salt e);
          newUser = new_User (objectId e) (str (body ''fullName''))
                      (str (body ''username'')) (str (body ''email'')) hashedPassword
      in case save (now e) db newUser of
           Inl err \<Rightarrow> (db, Json_error 500 ''Internal server error. Please try again.'')
         | Inr (db', saved) \<Rightarrow>
             (let token = jwt_sign (user_id saved, username saved, email saved)
                            JWT_SECRET expiresIn_7d (now e)
              in (db', Json_auth 201 ''Account created successfully!'' token
                         [(''id'', ObjectId (user_id saved)),
                          (''fullName'', Str (fullName saved)),
                          (''username'', Str (username saved)),
                          (''email'', Str (email saved))])))"

text \<open>\<open>POST /api/signup\<close>: the collection after the request, and the response.\<close>

definition signup :: "env \<Rightarrow> user_doc list \<Rightarrow> (string \<rightharpoonup> string) \<Rightarrow> user_doc list \<times> response" where
  "signup e db body =
     (if falsy (body ''fullName'') \<or> falsy (body ''username'')
         \<or> falsy (body ''email'') \<or> falsy (body ''password'')
      then (db, Json_error 400 ''All fields are required'')
      else if length (str (body ''password'')) < 6
      then (db, Json_error 400 ''Password must be at least 6 characters long'')
      else
        (case findOne_email_or_username db (str (body ''email'')) (str (body ''username'')) of
           None \<Rightarrow> create_account e db body
         | Some existingUser \<Rightarrow>
             if email existingUser = str (body ''email'')
             then (db, Json_error 400 ''Email already registered'')
             else if username existingUser = str (body ''username'')
             then (db, Json_error 400 ''Username already taken'')
             else create_account e db body))"

text \<open>\<open>POST /api/login\<close>; it reads the collection and leaves it as it is.\<close>

definition login :: "nat \<Rightarrow> user_doc list \<Rightarrow> (string \<rightharpoonup> string) \<Rightarrow> response" where
  "login clock db body =
     (if falsy (body ''emailOrUsername'') \<or> falsy (body ''password'')
      then Json_error 400 ''Email/Username and password are required''
      else
        (case findOne_email_or_username db (toLowerCase (str (body ''emailOrUsername'')))
                (toLowerCase (str (body ''emailOrUsername''))) of
           None \<Rightarrow> Json_error 400 ''Invalid credentials''
         | Some user \<Rightarrow>
             (let isPasswordValid = bcrypt_compare (str (body ''password'')) (password user)
              in if \<not> isPasswordValid then Json_error 400 ''Invalid credentials''
                 else
                   (let token = jwt_sign (user_id user, username user, email user)
                                  JWT_SECRET expiresIn_7d clock
                    in Json_auth 200 ''Login successful!'' token
                         [(''id'', ObjectId (user_id user)),
                          (''fullName'', Str (fullName user)),
                          (''username'', Str (username user)),
                          (''email'', Str (email user))]))))"

text \<open>
  The first two lines of \<open>authenticateToken\<close>:
  \<open>authHeader && authHeader.split(' ')[1]\<close> is \<open>authHeader\<close> itself when that is
  missing or empty, and the second piece of the header otherwise.
\<close>

definition request_token :: "(string \<rightharpoonup> string) \<Rightarrow> string option" where
  "request_token headers =
     (let authHeader = headers ''authorization''
      in if falsy authHeader then authHeader
         else index (js_split CHR '' '' (str authHeader)) 1)"

text \<open>
  \<open>authenticateToken\<close>: \<open>Inl\<close> is the response it sends itself, \<open>Inr\<close> is the call of
  \<open>next()\<close> with the verified claims in \<open>req.user\<close>.
\<close>

definition authenticateToken ::
    "(string \<Rightarrow> jwt option) \<Rightarrow> nat \<Rightarrow> (string \<rightharpoonup> string) \<Rightarrow> response + jwt_payload" where
  "authenticateToken decode clock headers =
     (let token = request_token headers
      in if falsy token then Inl (Json_error 401 ''Access token required'')
         else (case jwt_verify decode (str token) JWT_SECRET clock of
                 Inl err \<Rightarrow> Inl (Json_error 403 ''Invalid or expired token'')
               | Inr user \<Rightarrow> Inr user))"

text \<open>
  The handler of \<open>GET /api/profile\<close>, run with \<open>req.user\<close>, and the whole route.
  \<open>.select('-password')\<close> leaves the password out of the document that is read; the
  handler reads the five fields it returns and no other.
\<close>

definition profile :: "user_doc list \<Rightarrow> jwt_payload \<Rightarrow> response" where
  "profile db req_user =
     (case findById db (userId req_user) of
        None \<Rightarrow> Json_error 404 ''User not found''
      | Some user \<Rightarrow>
          Json_user 200
            [(''id'', ObjectId (user_id user)),
             (''fullName'', Str (fullName user)),
             (''username'', Str (username user)),
             (''email'', Str (email user)),
             (''createdAt'', Date (createdAt user))])"

definition get_profile ::
    "(string \<Rightarrow> jwt option) \<Rightarrow> nat \<Rightarrow> user_doc list \<Rightarrow> (string \<rightharpoonup> string) \<Rightarrow> response" where
  "get_profile decode clock db headers =
     (case authenticateToken decode clock headers of
        Inl sent \<Rightarrow> sent
      | Inr req_user \<Rightarrow> profile db req_user)"

text \<open>The collection after a run of signup requests, each with what it reads from outside.\<close>

fun signups :: "user_doc list \<Rightarrow> (env \<times> (string \<rightharpoonup> string)) list \<Rightarrow> user_doc list" where
  "signups db [] = db"
| "signups db ((e, body) # rest) = signups (fst (signup e db body)) rest"

text \<open>
  A stored password that is a bcrypt digest made with the given work factor.
\<close>

fun is_bcrypt :: "nat \<Rightarrow> password_string \<Rightarrow> bool" where
  "is_bcrypt r (Bcrypt saltRounds s plaintext) = (saltRounds = r)"
| "is_bcrypt r (Plaintext s) = False"

text \<open>
  The document that a signup which gets through stores, and the response it then
  sends; both are stated here to say what the route is expected to compute.
\<close>

definition signup_doc :: "env \<Rightarrow> (string \<rightharpoonup> string) \<Rightarrow> user_doc" where
  "signup_doc e body =
     \<lparr>user_id = objectId e, fullName = trim (str (body ''fullName'')),
      username = toLowerCase (trim (str (body ''username''))),
      email = toLowerCase (trim (str (body ''email''))),
      password = bcrypt_hash (str (body ''password'')) 12 (salt e),
      createdAt = now e, updatedAt = now e\<rparr>"

definition signup_ok :: "env \<Rightarrow> (string \<rightharpoonup> string) \<Rightarrow> response" where
  "signup_ok e body =
     Json_auth 201 ''Account created successfully!''
       (Signed JWT_SECRET
          \<lparr>userId = objectId e, jwt_username = toLowerCase (trim (str (body ''username''))),
           jwt_email = toLowerCase (trim (str (body ''email''))),
           iat = now e div 1000, exp = now e div 1000 + 604800\<rparr>)
       [(''id'', ObjectId (objectId e)),
        (''fullName'', Str (trim (str (body ''fullName'')))),
        (''username'', Str (toLowerCase (trim (str (body ''username''))))),
        (''email'', Str (toLowerCase (trim (str (body ''email'')))))]"


text \<open>
  What every document written by \<open>signup\<close> satisfies: its \<open>fullName\<close>, \<open>username\<close>
  and \<open>email\<close> are fixed points of their setters and are not empty, and its
  \<open>password\<close> is a digest, with work factor 12, of a text of at least 6 characters.
\<close>

definition well_stored :: "user_doc \<Rightarrow> bool" where
  "well_stored u =
     (set_fullName (fullName u) = fullName u \<and> set_username (username u) = username u
      \<and> set_email (email u) = email u
      \<and> fullName u \<noteq> [] \<and> username u \<noteq> [] \<and> email u \<noteq> []
      \<and> (\<exists>s p. password u = Bcrypt 12 s p \<and> 6 \<le> length p))"

section \<open>Example requests\<close>

text \<open>The signup of section 8 of the specification, and the document it stores.\<close>

definition jane_env :: env where
  "jane_env = \<lparr>now = 1700000000000, salt = ''salt-1'', objectId = 1\<rparr>"

definition jane_body :: "string \<rightharpoonup> string" where
  "jane_body = [''fullName'' \<mapsto> ''Jane Doe'', ''username'' \<mapsto> ''janedoe'',
                ''email'' \<mapsto> ''jane@x.com'', ''password'' \<mapsto> ''secret1'']"

definition jane :: user_doc where
  "jane = \<lparr>user_id = 1, fullName = ''Jane Doe'', username = ''janedoe'', email = ''jane@x.com'',
           password = Bcrypt 12 ''salt-1'' ''secret1'',
           createdAt = 1700000000000, updatedAt = 1700000000000\<rparr>"

definition jane_claims :: jwt_payload where
  "jane_claims = \<lparr>userId = 1, jwt_username = ''janedoe'', jwt_email = ''jane@x.com'',
                  iat = 1700000000, exp = 1700604800\<rparr>"

definition jane_token :: jwt where
  "jane_token = Signed ''aakar3d_secret_key_2025'' jane_claims"

text \<open>
  A reader of serialised tokens that knows two strings: the token issued to Jane and
  a token with the same claims signed with another key.
\<close>

definition jane_decode :: "string \<Rightarrow> jwt option" where
  "jane_decode s =
     (if s = ''jane.jwt'' then Some jane_token
      else if s = ''forged.jwt'' then Some (Signed ''another key'' jane_claims)
      else None)"

text \<open>
  A second account, whose \<open>username\<close> is the text of Jane's \<open>email\<close>; the route
  checks no format of a username.
\<close>

definition mallory_env :: env where
  "mallory_env = \<lparr>now = 1700000100000, salt = ''salt-2'', objectId = 2\<rparr>"

definition mallory_body :: "string \<rightharpoonup> string" where
  "mallory_body = [''fullName'' \<mapsto> ''Mallory'', ''username'' \<mapsto> ''jane@x.com'',
                   ''email'' \<mapsto> ''mallory@x.com'', ''password'' \<mapsto> ''hunter22'']"

definition mallory :: user_doc where
  "mallory = \<lparr>user_id = 2, fullName = ''Mallory'', username = ''jane@x.com'',
              email = ''mallory@x.com'', password = Bcrypt 12 ''salt-2'' ''hunter22'',
              createdAt = 1700000100000, updatedAt = 1700000100000\<rparr>"

text \<open>A third account, with nothing in common with Jane's.\<close>

definition bob_env :: env where
  "bob_env = \<lparr>now = 1700000200000, salt = ''salt-3'', objectId = 3\<rparr>"

definition bob_body :: "string \<rightharpoonup> string" where
  "bob_body = [''fullName'' \<mapsto> ''Bob'', ''username'' \<mapsto> ''bobby'',
               ''email'' \<mapsto> ''bob@x.com'', ''password'' \<mapsto> ''builder1'']"

definition bob :: user_doc where
  "bob = \<lparr>user_id = 3, fullName = ''Bob'', username = ''bobby'', email = ''bob@x.com'',
          password = Bcrypt 12 ''salt-3'' ''builder1'',
          createdAt = 1700000200000, updatedAt = 1700000200000\<rparr>"

section \<open>Strings\<close>

lemmas string_defs = toLowerCase_def lower_char_def char_of_def bit_Suc_0_iff trim_def white_space_def
  set_email_def set_username_def set_fullName_def

lemma lower_char_idem: "lower_char (lower_char c) = lower_char c"
  by (auto simp: lower_char_def Let_def)

lemma toLowerCase_idem: "toLowerCase (toLowerCase s) = toLowerCase s"
  by (simp add: toLowerCase_def lower_char_idem)

lemma white_space_lower_char: "white_space (lower_char c) = white_space c"
  by (auto simp: lower_char_def white_space_def Let_def)

lemma dropWhile_white_space_lower:
  "dropWhile white_space (map lower_char s) = map lower_char (dropWhile white_space s)"
  by (induction s) (simp_all add: white_space_lower_char)

lemma trim_toLowerCase: "trim (toLowerCase s) = toLowerCase (trim s)"
  by (simp add: trim_def toLowerCase_def dropWhile_white_space_lower rev_map)

lemma dropWhile_fixed: "xs = [] \<or> \<not> P (hd xs) \<Longrightarrow> dropWhile P xs = xs"
  by (cases xs) auto

lemma trim_ends:
  "trim s = [] \<or> (\<not> white_space (hd (trim s)) \<and> \<not> white_space (last (trim s)))"
proof (cases "trim s = []")
  case True
  then show ?thesis by simp
next
  case False
  define t where "t = dropWhile white_space s"
  define d where "d = dropWhile white_space (rev t)"
  have tr: "trim s = rev d" by (simp add: trim_def t_def d_def)
  with False have dne: "d \<noteq> []" by simp
  then have "\<not> white_space (hd d)" unfolding d_def by (rule hd_dropWhile)
  then have l: "\<not> white_space (last (trim s))" using dne by (simp add: tr last_rev)
  have "rev t = takeWhile white_space (rev t) @ d" by (simp add: d_def)
  then have "rev (rev t) = rev (takeWhile white_space (rev t) @ d)" by simp
  then have t_eq: "t = rev d @ rev (takeWhile white_space (rev t))" by simp
  with dne have "hd t = hd (rev d)" by (metis hd_append2 rev_is_Nil_conv)
  moreover have "t \<noteq> []" using t_eq dne by auto
  then have "\<not> white_space (hd t)" unfolding t_def by (rule hd_dropWhile)
  ultimately have "\<not> white_space (hd (trim s))" by (simp add: tr)
  with l show ?thesis by simp
qed

lemma trim_idem: "trim (trim s) = trim s"
proof (cases "trim s = []")
  case True
  have "trim [] = []" by (simp add: trim_def)
  with True show ?thesis by simp
next
  case False
  with trim_ends [of s] have h: "\<not> white_space (hd (trim s))" and l: "\<not> white_space (last (trim s))"
    by auto
  have 1: "dropWhile white_space (trim s) = trim s"
    using h by (intro dropWhile_fixed) simp
  have "hd (rev (trim s)) = last (trim s)" using False by (simp add: hd_rev)
  then have 2: "dropWhile white_space (rev (trim s)) = rev (trim s)"
    using l by (intro dropWhile_fixed) simp
  show ?thesis
    unfolding trim_def [of "trim s"] 1 2 by simp
qed

lemma set_username_idem: "set_username (set_username v) = set_username v"
  by (simp add: set_username_def trim_toLowerCase trim_idem toLowerCase_idem)

lemma set_email_idem: "set_email (set_email v) = set_email v"
  by (simp add: set_email_def trim_toLowerCase trim_idem toLowerCase_idem)

lemma toLowerCase_set_username: "toLowerCase (set_username v) = set_username v"
  by (simp add: set_username_def toLowerCase_idem)

lemma toLowerCase_set_email: "toLowerCase (set_email v) = set_email v"
  by (simp add: set_email_def toLowerCase_idem)

lemma js_split_not_Nil: "js_split sep s \<noteq> []"
  by (induction s) (auto split: list.splits)

lemma js_split_no_sep: "sep \<notin> set s \<Longrightarrow> js_split sep s = [s]"
  by (induction s) auto

lemma js_split_first: "sep \<notin> set a \<Longrightarrow> js_split sep (a @ sep # r) = a # js_split sep r"
  by (induction a) auto

section \<open>Evaluating the routes\<close>

lemmas route_defs = signup_def login_def falsy_def str_def findOne_email_or_username_def
  create_account_def bcrypt_hash_def new_User_def save_def jwt_sign_def JWT_SECRET_def
  expiresIn_7d_def Let_def

lemmas example_defs = jane_env_def jane_body_def jane_def jane_token_def jane_claims_def
  mallory_env_def mallory_body_def mallory_def bob_env_def bob_body_def bob_def

lemma signup_jane: "signup jane_env [] jane_body =
    ([jane], Json_auth 201 ''Account created successfully!'' jane_token
       [(''id'', ObjectId 1), (''fullName'', Str ''Jane Doe''),
        (''username'', Str ''janedoe''), (''email'', Str ''jane@x.com'')])"
  by (simp add: route_defs example_defs string_defs)

lemma find_unique:
  assumes "u \<in> set xs" and "P u" and "\<forall>v \<in> set xs. P v \<longrightarrow> v = u"
  shows "find P xs = Some u"
  using assms
proof (induction xs)
  case Nil
  then show ?case by simp
next
  case (Cons x xs)
  show ?case
  proof (cases "P x")
    case True
    with Cons.prems(3) have "x = u" by simp
    with True show ?thesis by simp
  next
    case False
    with Cons.prems(1,2) have "u \<in> set xs" by auto
    moreover from Cons.prems(3) have "\<forall>v \<in> set xs. P v \<longrightarrow> v = u" by simp
    ultimately have "find P xs = Some u" using Cons.IH Cons.prems(2) by blast
    with False show ?thesis by simp
  qed
qed

lemma find_in_set: "find P xs = Some x \<Longrightarrow> x \<in> set xs \<and> P x"
  by (auto simp: find_Some_iff)

text \<open>\<open>save\<close> and \<open>create_account\<close> on the document that the handler builds.\<close>

lemma save_new_User:
  "save (now e) db (new_User (objectId e) (str (body ''fullName'')) (str (body ''username''))
      (str (body ''email'')) (bcrypt_hash (str (body ''password'')) 12 (salt e)))
   = (if fullName (signup_doc e body) = [] \<or> username (signup_doc e body) = []
         \<or> email (signup_doc e body) = []
      then Inl ValidationError
      else if \<exists>u \<in> set db. user_id u = objectId e \<or> username u = username (signup_doc e body)
                \<or> email u = email (signup_doc e body)
      then Inl DuplicateKey
      else Inr (db @ [signup_doc e body], signup_doc e body))"
  by (simp add: save_def Let_def new_User_def signup_doc_def set_fullName_def set_username_def
      set_email_def bcrypt_hash_def)

lemma create_account_eq:
  "create_account e db body =
     (if fullName (signup_doc e body) = [] \<or> username (signup_doc e body) = []
         \<or> email (signup_doc e body) = []
         \<or> (\<exists>u \<in> set db. user_id u = objectId e \<or> username u = username (signup_doc e body)
                \<or> email u = email (signup_doc e body))
      then (db, Json_error 500 ''Internal server error. Please try again.'')
      else (db @ [signup_doc e body], signup_ok e body))"
  unfolding create_account_def Let_def save_new_User
  by (simp add: signup_doc_def signup_ok_def jwt_sign_def expiresIn_7d_def)

text \<open>The ways a signup can end, and what it keeps true of the collection.\<close>

lemma signup_create_or_refuse:
  "(signup e db body = create_account e db body \<and> 6 \<le> length (str (body ''password'')))
   \<or> (fst (signup e db body) = db \<and> (\<exists>m. snd (signup e db body) = Json_error 400 m))"
  by (simp add: signup_def split: option.splits)

lemma create_account_store:
  "(create_account e db body = (db, Json_error 500 ''Internal server error. Please try again.''))
   \<or> (create_account e db body = (db @ [signup_doc e body], signup_ok e body)
      \<and> fullName (signup_doc e body) \<noteq> [] \<and> username (signup_doc e body) \<noteq> []
      \<and> email (signup_doc e body) \<noteq> [])"
  unfolding create_account_eq by simp

lemma signup_response:
  "(\<exists>s m. snd (signup e db body) = Json_error s m \<and> fst (signup e db body) = db)
   \<or> (signup e db body = (db @ [signup_doc e body], signup_ok e body)
      \<and> 6 \<le> length (str (body ''password''))
      \<and> fullName (signup_doc e body) \<noteq> [] \<and> username (signup_doc e body) \<noteq> []
      \<and> email (signup_doc e body) \<noteq> [])"
  using signup_create_or_refuse [of e db body] create_account_store [of e db body]
  by (elim disjE conjE exE) simp_all

lemma well_stored_signup_doc:
  assumes "6 \<le> length (str (body ''password''))"
    and "fullName (signup_doc e body) \<noteq> []" and "username (signup_doc e body) \<noteq> []"
    and "email (signup_doc e body) \<noteq> []"
  shows "well_stored (signup_doc e body)"
proof -
  have "set_username (username (signup_doc e body)) = username (signup_doc e body)"
    using set_username_idem [of "str (body ''username'')"]
    by (simp add: signup_doc_def set_username_def)
  moreover have "set_email (email (signup_doc e body)) = email (signup_doc e body)"
    using set_email_idem [of "str (body ''email'')"]
    by (simp add: signup_doc_def set_email_def)
  moreover have "set_fullName (fullName (signup_doc e body)) = fullName (signup_doc e body)"
    by (simp add: signup_doc_def set_fullName_def trim_idem)
  moreover have "\<exists>s p. password (signup_doc e body) = Bcrypt 12 s p \<and> 6 \<le> length p"
    using assms(1) by (simp add: signup_doc_def bcrypt_hash_def)
  ultimately show ?thesis
    using assms(2-4) unfolding well_stored_def by blast
qed

lemma signup_well_stored:
  assumes "\<forall>u \<in> set db. well_stored u"
  shows "\<forall>u \<in> set (fst (signup e db body)). well_stored u"
proof -
  from signup_response [of e db body] show ?thesis
  proof
    assume "\<exists>s m. snd (signup e db body) = Json_error s m \<and> fst (signup e db body) = db"
    then have "fst (signup e db body) = db" by blast
    with assms show ?thesis by simp
  next
    assume a: "signup e db body = (db @ [signup_doc e body], signup_ok e body)
      \<and> 6 \<le> length (str (body ''password''))
      \<and> fullName (signup_doc e body) \<noteq> [] \<and> username (signup_doc e body) \<noteq> []
      \<and> email (signup_doc e body) \<noteq> []"
    then have "well_stored (signup_doc e body)" by (simp add: well_stored_signup_doc)
    with a assms show ?thesis by simp
  qed
qed

lemma signups_well_stored:
  "\<forall>u \<in> set db. well_stored u \<Longrightarrow> \<forall>u \<in> set (signups db reqs). well_stored u"
proof (induction reqs arbitrary: db)
  case Nil
  then show ?case by simp
next
  case (Cons r reqs)
  obtain e body where r: "r = (e, body)" by (cases r)
  from Cons.prems have "\<forall>u \<in> set (fst (signup e db body)). well_stored u"
    by (rule signup_well_stored)
  then have "\<forall>u \<in> set (signups (fst (signup e db body)) reqs). well_stored u"
    by (rule Cons.IH)
  then show ?case by (simp add: r)
qed

lemma well_stored_lower:
  assumes "well_stored u"
  shows "toLowerCase (username u) = username u" and "toLowerCase (email u) = email u"
    and "trim (fullName u) = fullName u" and "is_bcrypt 12 (password u)"
proof -
  from assms have a: "set_username (username u) = username u" "set_email (email u) = email u"
    by (simp_all add: well_stored_def)
  show "toLowerCase (username u) = username u"
    using toLowerCase_set_username [of "username u"] a(1) by simp
  show "toLowerCase (email u) = email u"
    using toLowerCase_set_email [of "email u"] a(2) by simp
  show "trim (fullName u) = fullName u"
    using assms by (simp add: well_stored_def set_fullName_def)
  show "is_bcrypt 12 (password u)"
    using assms by (auto simp: well_stored_def)
qed


section \<open>Signup\<close>

text \<open>
  Claim C3. A signup request in which \<open>fullName\<close>, \<open>username\<close>, \<open>email\<close> or
  \<open>password\<close> is missing or empty, or in which the password has fewer than 6
  characters, is answered with status 400 (one of the two validation messages); the
  collection is left as it was and the response carries no token.
\<close>

theorem signup_rejects_invalid_input:
  assumes "falsy (body ''fullName'') \<or> falsy (body ''username'') \<or> falsy (body ''email'')
           \<or> falsy (body ''password'') \<or> length (str (body ''password'')) < 6"
  shows "fst (signup e db body) = db
         \<and> (snd (signup e db body) = Json_error 400 ''All fields are required''
            \<or> snd (signup e db body) = Json_error 400 ''Password must be at least 6 characters long'')
         \<and> status (snd (signup e db body)) = 400
         \<and> issued_token (snd (signup e db body)) = None"
  using assms by (auto simp: signup_def)

theorem signup_rejects_invalid_input_witness:
  "length (str ((jane_body(''password'' \<mapsto> ''abc'')) ''password'')) < 6
   \<and> fst (signup jane_env [jane] (jane_body(''password'' \<mapsto> ''abc''))) = [jane]
   \<and> status (snd (signup jane_env [jane] (jane_body(''password'' \<mapsto> ''abc'')))) = 400
   \<and> issued_token (snd (signup jane_env [jane] (jane_body(''password'' \<mapsto> ''abc'')))) = None"
proof -
  let ?b = "jane_body(''password'' \<mapsto> ''abc'')"
  have h: "length (str (?b ''password'')) < 6" by (simp add: str_def)
  then have "falsy (?b ''fullName'') \<or> falsy (?b ''username'') \<or> falsy (?b ''email'')
           \<or> falsy (?b ''password'') \<or> length (str (?b ''password'')) < 6" by blast
  from signup_rejects_invalid_input [OF this, of jane_env "[jane]"] h show ?thesis by blast
qed

text \<open>
  Claim C8. In every collection reached from the empty one by signup requests, every
  document holds a bcrypt digest (work factor 12) in \<open>password\<close>, never the text
  that was sent, and its \<open>fullName\<close> is trimmed and its \<open>username\<close> and \<open>email\<close>
  are lower-case. A signup either leaves the collection as it is or appends exactly
  one document: the digest of the submitted password under the drawn salt, the
  trimmed \<open>fullName\<close>, the trimmed lower-case \<open>username\<close> and \<open>email\<close>. Login and the
  profile route return no collection: they cannot write one.
\<close>

theorem stored_records_hashed_and_normalised:
  "(\<forall>u \<in> set (signups [] reqs).
       is_bcrypt 12 (password u) \<and> trim (fullName u) = fullName u
       \<and> toLowerCase (username u) = username u \<and> toLowerCase (email u) = email u)
   \<and> (fst (signup e db body) = db
      \<or> fst (signup e db body) =
          db @ [\<lparr>user_id = objectId e, fullName = trim (str (body ''fullName'')),
                 username = toLowerCase (trim (str (body ''username''))),
                 email = toLowerCase (trim (str (body ''email''))),
                 password = bcrypt_hash (str (body ''password'')) 12 (salt e),
                 createdAt = now e, updatedAt = now e\<rparr>])"
proof
  have "\<forall>u \<in> set (signups [] reqs). well_stored u"
    by (rule signups_well_stored) simp
  then show "\<forall>u \<in> set (signups [] reqs).
       is_bcrypt 12 (password u) \<and> trim (fullName u) = fullName u
       \<and> toLowerCase (username u) = username u \<and> toLowerCase (email u) = email u"
    by (simp add: well_stored_lower)
next
  show "fst (signup e db body) = db
      \<or> fst (signup e db body) =
          db @ [\<lparr>user_id = objectId e, fullName = trim (str (body ''fullName'')),
                 username = toLowerCase (trim (str (body ''username''))),
                 email = toLowerCase (trim (str (body ''email''))),
                 password = bcrypt_hash (str (body ''password'')) 12 (salt e),
                 createdAt = now e, updatedAt = now e\<rparr>]"
  proof (rule disjE [OF signup_response [of e db body]])
    assume "\<exists>s m. snd (signup e db body) = Json_error s m \<and> fst (signup e db body) = db"
    then show ?thesis by blast
  next
    assume "signup e db body = (db @ [signup_doc e body], signup_ok e body)
      \<and> 6 \<le> length (str (body ''password''))
      \<and> fullName (signup_doc e body) \<noteq> [] \<and> username (signup_doc e body) \<noteq> []
      \<and> email (signup_doc e body) \<noteq> []"
    then have "fst (signup e db body) = db @ [signup_doc e body]" by simp
    then show ?thesis unfolding signup_doc_def by (rule disjI2)
  qed
qed

theorem stored_records_hashed_and_normalised_witness:
  "jane \<in> set (signups [] [(jane_env, jane_body)])
   \<and> is_bcrypt 12 (password jane) \<and> password jane = Bcrypt 12 ''salt-1'' ''secret1''
   \<and> trim (fullName jane) = fullName jane
   \<and> toLowerCase (username jane) = username jane \<and> toLowerCase (email jane) = email jane
   \<and> fst (signup jane_env [] jane_body) = [] @ [jane]"
proof -
  have m: "jane \<in> set (signups [] [(jane_env, jane_body)])" by (simp add: signup_jane)
  have p: "password jane = Bcrypt 12 ''salt-1'' ''secret1''" by (simp add: jane_def)
  have f: "fst (signup jane_env [] jane_body) = [] @ [jane]" by (simp add: signup_jane)
  from stored_records_hashed_and_normalised [of "[(jane_env, jane_body)]" jane_env "[]" jane_body] m
  have "is_bcrypt 12 (password jane) \<and> trim (fullName jane) = fullName jane
       \<and> toLowerCase (username jane) = username jane \<and> toLowerCase (email jane) = email jane"
    by blast
  with m p f show ?thesis by blast
qed










text \<open>
  Claim C2 says that the lookup before creation is case-insensitive on both fields,
  so that a signup differing from a stored document only by letter case is refused
  with the matching duplicate error. Evaluated on the collection that holds Jane: a
  signup with the email \<open>JANE@X.COM\<close> and a fresh username, and a signup with the
  username \<open>JaneDoe\<close> and a fresh email, are both answered with status 500,
  \<open>Internal server error\<close>. The handler compares the stored lower-case value with the
  text as it was sent, both comparisons fail, and the unique index refuses the
  document at \<open>save\<close>.
\<close>

theorem signup_case_variant_server_error:
  "signup mallory_env [jane] (jane_body(''email'' \<mapsto> ''JANE@X.COM'', ''username'' \<mapsto> ''jane2''))
     = ([jane], Json_error 500 ''Internal server error. Please try again.'')
   \<and> signup mallory_env [jane] (jane_body(''username'' \<mapsto> ''JaneDoe'', ''email'' \<mapsto> ''other@x.com''))
     = ([jane], Json_error 500 ''Internal server error. Please try again.'')
   \<and> signups [] [(jane_env, jane_body)] = [jane]
   \<and> toLowerCase ''JANE@X.COM'' = email jane \<and> toLowerCase ''JaneDoe'' = username jane"
proof -
  have 1: "signup mallory_env [jane] (jane_body(''email'' \<mapsto> ''JANE@X.COM'', ''username'' \<mapsto> ''jane2''))
     = ([jane], Json_error 500 ''Internal server error. Please try again.'')"
    by (simp add: route_defs example_defs string_defs)
  have 2: "signup mallory_env [jane] (jane_body(''username'' \<mapsto> ''JaneDoe'', ''email'' \<mapsto> ''other@x.com''))
     = ([jane], Json_error 500 ''Internal server error. Please try again.'')"
    by (simp add: route_defs example_defs string_defs)
  have 3: "signups [] [(jane_env, jane_body)] = [jane]"
    by (simp add: signup_jane)
  have 4: "toLowerCase ''JANE@X.COM'' = email jane" "toLowerCase ''JaneDoe'' = username jane"
    by (simp_all add: jane_def string_defs)
  from 1 2 3 4 show ?thesis by blast
qed

section \<open>Login\<close>

lemma toLowerCase_Nil_iff: "toLowerCase s = [] \<longleftrightarrow> s = []"
  by (simp add: toLowerCase_def)

lemma login_found:
  assumes "\<not> falsy (body ''emailOrUsername'')" and "\<not> falsy (body ''password'')"
    and "findOne_email_or_username db (toLowerCase (str (body ''emailOrUsername'')))
           (toLowerCase (str (body ''emailOrUsername''))) = Some u"
  shows "login clock db body =
           (if bcrypt_compare (str (body ''password'')) (password u)
            then Json_auth 200 ''Login successful!''
                   (Signed JWT_SECRET
                      \<lparr>userId = user_id u, jwt_username = username u, jwt_email = email u,
                       iat = clock div 1000, exp = clock div 1000 + 604800\<rparr>)
                   [(''id'', ObjectId (user_id u)), (''fullName'', Str (fullName u)),
                    (''username'', Str (username u)), (''email'', Str (email u))]
            else Json_error 400 ''Invalid credentials'')"
  using assms by (simp add: login_def jwt_sign_def expiresIn_7d_def)

lemma login_response:
  "(\<exists>m. login clock db body = Json_error 400 m)
   \<or> (\<exists>u \<in> set db. login clock db body =
          Json_auth 200 ''Login successful!''
            (Signed JWT_SECRET
               \<lparr>userId = user_id u, jwt_username = username u, jwt_email = email u,
                iat = clock div 1000, exp = clock div 1000 + 604800\<rparr>)
            [(''id'', ObjectId (user_id u)), (''fullName'', Str (fullName u)),
             (''username'', Str (username u)), (''email'', Str (email u))])"
proof (cases "falsy (body ''emailOrUsername'') \<or> falsy (body ''password'')")
  case True
  then have "login clock db body = Json_error 400 ''Email/Username and password are required''"
    by (simp add: login_def)
  then show ?thesis by blast
next
  case False
  show ?thesis
  proof (cases "findOne_email_or_username db (toLowerCase (str (body ''emailOrUsername'')))
           (toLowerCase (str (body ''emailOrUsername'')))")
    case None
    with False have "login clock db body = Json_error 400 ''Invalid credentials''"
      by (simp add: login_def)
    then show ?thesis by blast
  next
    case (Some u)
    then have mem: "u \<in> set db"
      unfolding findOne_email_or_username_def by (rule find_in_set [THEN conjunct1])
    from False have nf: "\<not> falsy (body ''emailOrUsername'')" "\<not> falsy (body ''password'')"
      by simp_all
    note eq = login_found [OF nf Some, of clock]
    show ?thesis
    proof (cases "bcrypt_compare (str (body ''password'')) (password u)")
      case True
      with eq have "login clock db body =
          Json_auth 200 ''Login successful!''
            (Signed JWT_SECRET
               \<lparr>userId = user_id u, jwt_username = username u, jwt_email = email u,
                iat = clock div 1000, exp = clock div 1000 + 604800\<rparr>)
            [(''id'', ObjectId (user_id u)), (''fullName'', Str (fullName u)),
             (''username'', Str (username u)), (''email'', Str (email u))]"
        by (simp only: if_True)
      with mem show ?thesis by blast
    next
      case False
      with eq have "login clock db body = Json_error 400 ''Invalid credentials''"
        by (simp only: if_False)
      then show ?thesis by blast
    qed
  qed
qed

lemma signups_mallory_jane:
  "signups [] [(mallory_env, mallory_body), (jane_env, jane_body)] = [mallory, jane]"
  by (simp add: route_defs example_defs string_defs)

lemma signups_jane_mallory:
  "signups [] [(jane_env, jane_body), (mallory_env, mallory_body)] = [jane, mallory]"
  by (simp add: route_defs example_defs string_defs)

text \<open>
  Claim C4. A login that fails because no document matches the identifier and a login
  that fails because the password does not verify get the same response, status 400
  with the error \<open>Invalid credentials\<close>: equal as values, whatever the two
  collections, identifiers, passwords and clocks are.
\<close>

theorem login_failures_indistinguishable:
  assumes "\<not> falsy (body1 ''emailOrUsername'')" and "\<not> falsy (body1 ''password'')"
    and "\<not> falsy (body2 ''emailOrUsername'')" and "\<not> falsy (body2 ''password'')"
    and "findOne_email_or_username db1 (toLowerCase (str (body1 ''emailOrUsername'')))
           (toLowerCase (str (body1 ''emailOrUsername''))) = None"
    and "findOne_email_or_username db2 (toLowerCase (str (body2 ''emailOrUsername'')))
           (toLowerCase (str (body2 ''emailOrUsername''))) = Some user"
    and "\<not> bcrypt_compare (str (body2 ''password'')) (password user)"
  shows "login t1 db1 body1 = Json_error 400 ''Invalid credentials''
         \<and> login t2 db2 body2 = Json_error 400 ''Invalid credentials''
         \<and> login t1 db1 body1 = login t2 db2 body2"
  using assms by (simp add: login_def)

theorem login_failures_indistinguishable_witness:
  "login 5 [jane] [''emailOrUsername'' \<mapsto> ''nobody'', ''password'' \<mapsto> ''secret1'']
     = Json_error 400 ''Invalid credentials''
   \<and> login 7 [jane] [''emailOrUsername'' \<mapsto> ''janedoe'', ''password'' \<mapsto> ''Secret1'']
     = Json_error 400 ''Invalid credentials''
   \<and> findOne_email_or_username [jane] (toLowerCase ''nobody'') (toLowerCase ''nobody'') = None
   \<and> findOne_email_or_username [jane] (toLowerCase ''janedoe'') (toLowerCase ''janedoe'') = Some jane
   \<and> \<not> bcrypt_compare ''Secret1'' (password jane)"
proof -
  let ?b1 = "[''emailOrUsername'' \<mapsto> ''nobody'', ''password'' \<mapsto> ''secret1'']"
  let ?b2 = "[''emailOrUsername'' \<mapsto> ''janedoe'', ''password'' \<mapsto> ''Secret1'']"
  have a: "\<not> falsy (?b1 ''emailOrUsername'')" "\<not> falsy (?b1 ''password'')"
    "\<not> falsy (?b2 ''emailOrUsername'')" "\<not> falsy (?b2 ''password'')"
    by (simp_all add: falsy_def)
  have n: "findOne_email_or_username [jane] (toLowerCase ''nobody'') (toLowerCase ''nobody'') = None"
    by (simp add: findOne_email_or_username_def jane_def string_defs)
  have f: "findOne_email_or_username [jane] (toLowerCase ''janedoe'') (toLowerCase ''janedoe'') = Some jane"
    by (simp add: findOne_email_or_username_def jane_def string_defs)
  have c: "\<not> bcrypt_compare ''Secret1'' (password jane)"
    by (simp add: jane_def bcrypt_hash_def)
  have n': "findOne_email_or_username [jane] (toLowerCase (str (?b1 ''emailOrUsername'')))
           (toLowerCase (str (?b1 ''emailOrUsername''))) = None"
    using n by (simp add: str_def)
  have f': "findOne_email_or_username [jane] (toLowerCase (str (?b2 ''emailOrUsername'')))
           (toLowerCase (str (?b2 ''emailOrUsername''))) = Some jane"
    using f by (simp add: str_def)
  have c': "\<not> bcrypt_compare (str (?b2 ''password'')) (password jane)"
    using c by (simp add: str_def)
  from login_failures_indistinguishable [OF a n' f' c', of 5 7] n f c show ?thesis by blast
qed

text \<open>
  Claim C5 says that for every stored user a login with the correct password succeeds
  whether the identifier is the user's email or the user's username. It fails where
  one account's username is the text of another account's email (signup accepts any
  non-empty username): the lookup returns one document for the shared identifier and
  the other account's password is checked against the wrong digest. With Mallory
  stored before Jane, Jane's login by email with her own password is answered
  \<open>Invalid credentials\<close>; with Jane stored first it is Mallory's login by username
  that is refused. Both collections are reached by two signups.
\<close>

theorem login_shared_identifier_counterexample:
  "signups [] [(mallory_env, mallory_body), (jane_env, jane_body)] = [mallory, jane]
   \<and> toLowerCase ''jane@x.com'' = email jane
   \<and> password jane = bcrypt_hash ''secret1'' 12 ''salt-1''
   \<and> login 1700000500000 [mallory, jane]
         [''emailOrUsername'' \<mapsto> ''jane@x.com'', ''password'' \<mapsto> ''secret1'']
       = Json_error 400 ''Invalid credentials''
   \<and> signups [] [(jane_env, jane_body), (mallory_env, mallory_body)] = [jane, mallory]
   \<and> toLowerCase ''jane@x.com'' = username mallory
   \<and> password mallory = bcrypt_hash ''hunter22'' 12 ''salt-2''
   \<and> login 1700000500000 [jane, mallory]
         [''emailOrUsername'' \<mapsto> ''jane@x.com'', ''password'' \<mapsto> ''hunter22'']
       = Json_error 400 ''Invalid credentials''"
proof -
  have 1: "toLowerCase ''jane@x.com'' = email jane" "toLowerCase ''jane@x.com'' = username mallory"
    by (simp_all add: example_defs string_defs)
  have 2: "password jane = bcrypt_hash ''secret1'' 12 ''salt-1''"
    "password mallory = bcrypt_hash ''hunter22'' 12 ''salt-2''"
    by (simp_all add: example_defs bcrypt_hash_def)
  have 3: "login 1700000500000 [mallory, jane]
         [''emailOrUsername'' \<mapsto> ''jane@x.com'', ''password'' \<mapsto> ''secret1'']
       = Json_error 400 ''Invalid credentials''"
    by (simp add: route_defs example_defs string_defs)
  have 4: "login 1700000500000 [jane, mallory]
         [''emailOrUsername'' \<mapsto> ''jane@x.com'', ''password'' \<mapsto> ''hunter22'']
       = Json_error 400 ''Invalid credentials''"
    by (simp add: route_defs example_defs string_defs)
  from signups_mallory_jane signups_jane_mallory 1 2 3 4 show ?thesis by blast
qed

text \<open>
  Claim C5, amended. In a collection reached by signups, for every stored user whose
  email or username equals the lower-cased identifier, and where no other document
  has that text as its email or username, a login with the password the stored digest
  was made from succeeds (status 200, a token and the view of that user), whatever
  the letter case of the identifier; with any other non-empty password, in particular
  one that differs only in letter case, it is refused with \<open>Invalid credentials\<close>.
\<close>

theorem login_succeeds:
  assumes db: "db = signups [] reqs" and u: "u \<in> set db"
    and pw: "password u = bcrypt_hash pw 12 s"
    and ident: "toLowerCase ident = email u \<or> toLowerCase ident = username u"
    and others: "\<forall>v \<in> set db. v \<noteq> u \<longrightarrow>
                   email v \<noteq> toLowerCase ident \<and> username v \<noteq> toLowerCase ident"
    and body: "body ''emailOrUsername'' = Some ident" "body ''password'' = Some pw"
  shows "login clock db body =
           Json_auth 200 ''Login successful!''
             (Signed JWT_SECRET
                \<lparr>userId = user_id u, jwt_username = username u, jwt_email = email u,
                 iat = clock div 1000, exp = clock div 1000 + 604800\<rparr>)
             [(''id'', ObjectId (user_id u)), (''fullName'', Str (fullName u)),
              (''username'', Str (username u)), (''email'', Str (email u))]
         \<and> (\<forall>pw'. pw' \<noteq> pw \<and> pw' \<noteq> [] \<longrightarrow>
               login clock db (body(''password'' \<mapsto> pw')) = Json_error 400 ''Invalid credentials'')"
proof -
  let ?l = "toLowerCase ident"
  have "\<forall>u \<in> set (signups [] reqs). well_stored u"
    by (rule signups_well_stored) simp
  with db u have ws: "well_stored u" by simp
  then have fixed: "set_email (email u) = email u" "set_username (username u) = username u"
    and ne: "email u \<noteq> []" "username u \<noteq> []"
    and hp: "\<exists>s p. password u = Bcrypt 12 s p \<and> 6 \<le> length p"
    by (simp_all add: well_stored_def)
  from ident fixed have cast: "set_email ?l = ?l" "set_username ?l = ?l"
    by (auto simp: set_email_def set_username_def)
  from ident ne have "?l \<noteq> []" by auto
  then have idne: "ident \<noteq> []" by (simp add: toLowerCase_Nil_iff)
  from hp pw have "6 \<le> length pw" by (auto simp: bcrypt_hash_def)
  then have pwne: "pw \<noteq> []" by auto
  have "find (\<lambda>v. email v = ?l \<or> username v = ?l) db = Some u"
  proof (rule find_unique [OF u])
    from ident show "email u = ?l \<or> username u = ?l" by auto
    from others show "\<forall>v \<in> set db. email v = ?l \<or> username v = ?l \<longrightarrow> v = u" by blast
  qed
  then have found: "findOne_email_or_username db ?l ?l = Some u"
    by (simp add: findOne_email_or_username_def cast)
  have cmp: "bcrypt_compare c (password u) = (c = pw)" for c
    by (simp add: pw bcrypt_hash_def)
  have nf: "\<not> falsy (body ''emailOrUsername'')" "\<not> falsy (body ''password'')"
    by (simp_all add: falsy_def body idne pwne)
  have f: "findOne_email_or_username db (toLowerCase (str (body ''emailOrUsername'')))
           (toLowerCase (str (body ''emailOrUsername''))) = Some u"
    by (simp add: str_def body found)
  have ok: "login clock db body =
           Json_auth 200 ''Login successful!''
             (Signed JWT_SECRET
                \<lparr>userId = user_id u, jwt_username = username u, jwt_email = email u,
                 iat = clock div 1000, exp = clock div 1000 + 604800\<rparr>)
             [(''id'', ObjectId (user_id u)), (''fullName'', Str (fullName u)),
              (''username'', Str (username u)), (''email'', Str (email u))]"
    unfolding login_found [OF nf f] by (simp add: str_def body cmp)
  have bad: "login clock db (body(''password'' \<mapsto> pw')) = Json_error 400 ''Invalid credentials''"
    if "pw' \<noteq> pw" and "pw' \<noteq> []" for pw'
  proof -
    let ?b = "body(''password'' \<mapsto> pw')"
    have nf': "\<not> falsy (?b ''emailOrUsername'')" "\<not> falsy (?b ''password'')"
      using that(2) by (simp_all add: falsy_def body idne)
    have f': "findOne_email_or_username db (toLowerCase (str (?b ''emailOrUsername'')))
           (toLowerCase (str (?b ''emailOrUsername''))) = Some u"
      by (simp add: str_def body found)
    show ?thesis
      unfolding login_found [OF nf' f'] using that(1) by (simp add: str_def cmp)
  qed
  from ok bad show ?thesis by blast
qed

theorem login_succeeds_witness:
  "login 1700000500000 [mallory, jane]
       [''emailOrUsername'' \<mapsto> ''JaneDoe'', ''password'' \<mapsto> ''secret1'']
     = Json_auth 200 ''Login successful!''
         (Signed JWT_SECRET
            \<lparr>userId = 1, jwt_username = ''janedoe'', jwt_email = ''jane@x.com'',
             iat = 1700000500, exp = 1700605300\<rparr>)
         [(''id'', ObjectId 1), (''fullName'', Str ''Jane Doe''),
          (''username'', Str ''janedoe''), (''email'', Str ''jane@x.com'')]
   \<and> login 1700000500000 [mallory, jane]
       [''emailOrUsername'' \<mapsto> ''JaneDoe'', ''password'' \<mapsto> ''Secret1'']
     = Json_error 400 ''Invalid credentials''
   \<and> [mallory, jane] = signups [] [(mallory_env, mallory_body), (jane_env, jane_body)]
   \<and> jane \<in> set [mallory, jane]
   \<and> toLowerCase ''JaneDoe'' = username jane
   \<and> password jane = bcrypt_hash ''secret1'' 12 ''salt-1''
   \<and> email mallory \<noteq> toLowerCase ''JaneDoe'' \<and> username mallory \<noteq> toLowerCase ''JaneDoe''"
proof -
  let ?b = "[''emailOrUsername'' \<mapsto> ''JaneDoe'', ''password'' \<mapsto> ''secret1'']"
  have db: "[mallory, jane] = signups [] [(mallory_env, mallory_body), (jane_env, jane_body)]"
    by (simp only: signups_mallory_jane)
  have u: "jane \<in> set [mallory, jane]" by simp
  have pw: "password jane = bcrypt_hash ''secret1'' 12 ''salt-1''"
    by (simp add: jane_def bcrypt_hash_def)
  have l: "toLowerCase ''JaneDoe'' = username jane" by (simp add: jane_def string_defs)
  then have ident: "toLowerCase ''JaneDoe'' = email jane
      \<or> toLowerCase ''JaneDoe'' = username jane" ..
  have m: "email mallory \<noteq> toLowerCase ''JaneDoe''" "username mallory \<noteq> toLowerCase ''JaneDoe''"
    by (simp_all add: mallory_def string_defs)
  then have others: "\<forall>v \<in> set [mallory, jane]. v \<noteq> jane \<longrightarrow>
      email v \<noteq> toLowerCase ''JaneDoe'' \<and> username v \<noteq> toLowerCase ''JaneDoe''"
    by simp
  have body: "?b ''emailOrUsername'' = Some ''JaneDoe''" "?b ''password'' = Some ''secret1''"
    by simp_all
  note inst = login_succeeds [OF db u pw ident others body, of 1700000500000]
  have sel: "user_id jane = 1" "fullName jane = ''Jane Doe''" "username jane = ''janedoe''"
    "email jane = ''jane@x.com''"
    by (simp_all add: jane_def)
  have ar: "1700000500000 div 1000 = (1700000500::nat)"
    "(1700000500::nat) + 604800 = 1700605300"
    by simp_all
  have 1: "login 1700000500000 [mallory, jane] ?b
     = Json_auth 200 ''Login successful!''
         (Signed JWT_SECRET
            \<lparr>userId = 1, jwt_username = ''janedoe'', jwt_email = ''jane@x.com'',
             iat = 1700000500, exp = 1700605300\<rparr>)
         [(''id'', ObjectId 1), (''fullName'', Str ''Jane Doe''),
          (''username'', Str ''janedoe''), (''email'', Str ''jane@x.com'')]"
    using inst [THEN conjunct1] by (simp only: sel ar)
  have ne: "''Secret1'' \<noteq> ''secret1'' \<and> ''Secret1'' \<noteq> []" by simp
  have upd: "?b(''password'' \<mapsto> ''Secret1'')
      = [''emailOrUsername'' \<mapsto> ''JaneDoe'', ''password'' \<mapsto> ''Secret1'']"
    by simp
  from inst have "\<forall>pw'. pw' \<noteq> ''secret1'' \<and> pw' \<noteq> [] \<longrightarrow>
      login 1700000500000 [mallory, jane] (?b(''password'' \<mapsto> pw'))
        = Json_error 400 ''Invalid credentials''"
    by (rule conjunct2)
  then have "''Secret1'' \<noteq> ''secret1'' \<and> ''Secret1'' \<noteq> [] \<longrightarrow>
      login 1700000500000 [mallory, jane] (?b(''password'' \<mapsto> ''Secret1''))
        = Json_error 400 ''Invalid credentials''"
    by (rule spec)
  from this ne have "login 1700000500000 [mallory, jane] (?b(''password'' \<mapsto> ''Secret1''))
        = Json_error 400 ''Invalid credentials''"
    by (rule mp)
  then have 2: "login 1700000500000 [mallory, jane]
        [''emailOrUsername'' \<mapsto> ''JaneDoe'', ''password'' \<mapsto> ''Secret1'']
      = Json_error 400 ''Invalid credentials''"
    unfolding upd .
  from 1 2 db u l pw m show ?thesis by (intro conjI)
qed

section \<open>The authentication middleware\<close>

lemma request_token_examples:
  "request_token Map.empty = None"
  "request_token [''authorization'' \<mapsto> ''Bearer garbage''] = Some ''garbage''"
  "request_token [''authorization'' \<mapsto> ''Bearer forged.jwt''] = Some ''forged.jwt''"
  "request_token [''authorization'' \<mapsto> ''Bearer jane.jwt''] = Some ''jane.jwt''"
  by (simp_all add: request_token_def falsy_def str_def index_def)

lemma request_token_second_piece:
  assumes "CHR '' '' \<notin> set scheme"
  shows "request_token (headers(''authorization'' \<mapsto> scheme @ CHR '' '' # rest))
           = Some (hd (js_split CHR '' '' rest))"
proof -
  have "js_split CHR '' '' (scheme @ CHR '' '' # rest) = scheme # js_split CHR '' '' rest"
    using assms by (rule js_split_first)
  moreover have "js_split CHR '' '' rest \<noteq> []" by (rule js_split_not_Nil)
  ultimately show ?thesis
    by (cases "js_split CHR '' '' rest")
       (simp_all add: request_token_def falsy_def str_def index_def Let_def)
qed

lemma request_token_no_space:
  assumes "CHR '' '' \<notin> set header"
  shows "falsy (request_token (headers(''authorization'' \<mapsto> header)))"
  using assms by (simp add: request_token_def falsy_def str_def index_def js_split_no_sep Let_def)

lemma jane_verify:
  "jwt_verify jane_decode ''jane.jwt'' JWT_SECRET 1700000500000 = Inr jane_claims"
  by (simp add: jwt_verify_def jane_decode_def jane_token_def jane_claims_def JWT_SECRET_def)

text \<open>
  Claim C7. For every request the middleware ends in exactly one of three ways. It
  answers 401 \<open>Access token required\<close> exactly when no token is present; it answers
  403 \<open>Invalid or expired token\<close> exactly when a token is present and is malformed,
  signed with another key, or expired; it proceeds with the verified claims attached
  exactly when the token is present, carries these claims under the server's key and
  has not expired. One of the three always happens, and the two refusals differ in
  their status.
\<close>

theorem authenticateToken_outcomes:
  "(authenticateToken decode clock headers = Inl (Json_error 401 ''Access token required'')
      \<longleftrightarrow> falsy (request_token headers))
   \<and> (authenticateToken decode clock headers = Inl (Json_error 403 ''Invalid or expired token'')
      \<longleftrightarrow> \<not> falsy (request_token headers)
          \<and> (decode (str (request_token headers)) = None
             \<or> (\<exists>k p. decode (str (request_token headers)) = Some (Signed k p)
                    \<and> (k \<noteq> JWT_SECRET \<or> exp p \<le> clock div 1000))))
   \<and> (authenticateToken decode clock headers = Inr claims
      \<longleftrightarrow> \<not> falsy (request_token headers)
          \<and> decode (str (request_token headers)) = Some (Signed JWT_SECRET claims)
          \<and> clock div 1000 < exp claims)
   \<and> (authenticateToken decode clock headers = Inl (Json_error 401 ''Access token required'')
      \<or> authenticateToken decode clock headers = Inl (Json_error 403 ''Invalid or expired token'')
      \<or> (\<exists>user. authenticateToken decode clock headers = Inr user))
   \<and> status (Json_error 401 ''Access token required'')
        \<noteq> status (Json_error 403 ''Invalid or expired token'')"
  by (auto simp: authenticateToken_def jwt_verify_def Let_def split: option.splits jwt.splits)

theorem authenticateToken_outcomes_witness:
  "authenticateToken jane_decode 1700000500000 Map.empty
     = Inl (Json_error 401 ''Access token required'')
   \<and> authenticateToken jane_decode 1700000500000 [''authorization'' \<mapsto> ''Bearer garbage'']
     = Inl (Json_error 403 ''Invalid or expired token'')
   \<and> authenticateToken jane_decode 1700000500000 [''authorization'' \<mapsto> ''Bearer forged.jwt'']
     = Inl (Json_error 403 ''Invalid or expired token'')
   \<and> authenticateToken jane_decode 1700604800000 [''authorization'' \<mapsto> ''Bearer jane.jwt'']
     = Inl (Json_error 403 ''Invalid or expired token'')
   \<and> authenticateToken jane_decode 1700000500000 [''authorization'' \<mapsto> ''Bearer jane.jwt'']
     = Inr jane_claims"
proof -
  note ev = request_token_examples falsy_def str_def jane_decode_def jane_token_def
    jane_claims_def JWT_SECRET_def
  have 1: "authenticateToken jane_decode 1700000500000 Map.empty
     = Inl (Json_error 401 ''Access token required'')"
    using authenticateToken_outcomes [of jane_decode 1700000500000 Map.empty]
    by (simp add: ev)
  have 2: "authenticateToken jane_decode 1700000500000 [''authorization'' \<mapsto> ''Bearer garbage'']
     = Inl (Json_error 403 ''Invalid or expired token'')"
    using authenticateToken_outcomes [of jane_decode 1700000500000
        "[''authorization'' \<mapsto> ''Bearer garbage'']"]
    by (simp add: ev)
  have 3: "authenticateToken jane_decode 1700000500000 [''authorization'' \<mapsto> ''Bearer forged.jwt'']
     = Inl (Json_error 403 ''Invalid or expired token'')"
    using authenticateToken_outcomes [of jane_decode 1700000500000
        "[''authorization'' \<mapsto> ''Bearer forged.jwt'']"]
    by (simp add: ev)
  have 4: "authenticateToken jane_decode 1700604800000 [''authorization'' \<mapsto> ''Bearer jane.jwt'']
     = Inl (Json_error 403 ''Invalid or expired token'')"
    using authenticateToken_outcomes [of jane_decode 1700604800000
        "[''authorization'' \<mapsto> ''Bearer jane.jwt'']"]
    by (simp add: ev)
  have 5: "authenticateToken jane_decode 1700000500000 [''authorization'' \<mapsto> ''Bearer jane.jwt'']
     = Inr jane_claims"
    using authenticateToken_outcomes [of jane_decode 1700000500000
        "[''authorization'' \<mapsto> ''Bearer jane.jwt'']" jane_claims]
    by (simp add: ev)
  from 1 2 3 4 5 show ?thesis by blast
qed

text \<open>
  Claim C10. The scheme word is never looked at: with any word without a space in
  place of \<open>Bearer\<close> the middleware does exactly what it does for \<open>Bearer\<close>; the piece
  after the first space is the token, and a token that verifies is accepted whatever
  the word before it is. A header with no space in it (a bare token, or the word
  \<open>Bearer\<close> alone) is answered with 401, not 403.
\<close>

theorem scheme_word_not_checked:
  "(CHR '' '' \<notin> set scheme \<longrightarrow>
      authenticateToken decode clock (headers(''authorization'' \<mapsto> scheme @ '' '' @ rest))
        = authenticateToken decode clock (headers(''authorization'' \<mapsto> ''Bearer '' @ rest)))
   \<and> (CHR '' '' \<notin> set scheme \<and> CHR '' '' \<notin> set token \<longrightarrow>
        request_token (headers(''authorization'' \<mapsto> scheme @ '' '' @ token)) = Some token)
   \<and> (CHR '' '' \<notin> set scheme \<and> CHR '' '' \<notin> set token \<and> token \<noteq> []
        \<and> jwt_verify decode token JWT_SECRET clock = Inr claims \<longrightarrow>
        authenticateToken decode clock (headers(''authorization'' \<mapsto> scheme @ '' '' @ token))
          = Inr claims)
   \<and> (CHR '' '' \<notin> set header \<longrightarrow>
        authenticateToken decode clock (headers(''authorization'' \<mapsto> header))
          = Inl (Json_error 401 ''Access token required''))"
proof (intro conjI impI)
  assume s: "CHR '' '' \<notin> set scheme"
  have b: "CHR '' '' \<notin> set ''Bearer''" by simp
  have "request_token (headers(''authorization'' \<mapsto> scheme @ '' '' @ rest))
          = request_token (headers(''authorization'' \<mapsto> ''Bearer'' @ '' '' @ rest))"
    using request_token_second_piece [OF s, of headers rest]
      request_token_second_piece [OF b, of headers rest] by simp
  then show "authenticateToken decode clock (headers(''authorization'' \<mapsto> scheme @ '' '' @ rest))
        = authenticateToken decode clock (headers(''authorization'' \<mapsto> ''Bearer '' @ rest))"
    by (simp add: authenticateToken_def)
next
  assume "CHR '' '' \<notin> set scheme \<and> CHR '' '' \<notin> set token"
  then show "request_token (headers(''authorization'' \<mapsto> scheme @ '' '' @ token)) = Some token"
    by (simp add: request_token_second_piece js_split_no_sep)
next
  assume a: "CHR '' '' \<notin> set scheme \<and> CHR '' '' \<notin> set token \<and> token \<noteq> []
        \<and> jwt_verify decode token JWT_SECRET clock = Inr claims"
  then have "request_token (headers(''authorization'' \<mapsto> scheme @ '' '' @ token)) = Some token"
    by (simp add: request_token_second_piece js_split_no_sep)
  with a show "authenticateToken decode clock (headers(''authorization'' \<mapsto> scheme @ '' '' @ token))
          = Inr claims"
    by (simp add: authenticateToken_def falsy_def str_def)
next
  assume "CHR '' '' \<notin> set header"
  then have "falsy (request_token (headers(''authorization'' \<mapsto> header)))"
    by (rule request_token_no_space)
  then show "authenticateToken decode clock (headers(''authorization'' \<mapsto> header))
          = Inl (Json_error 401 ''Access token required'')"
    by (simp add: authenticateToken_def)
qed

theorem scheme_word_not_checked_witness:
  "CHR '' '' \<notin> set ''Basic'' \<and> CHR '' '' \<notin> set ''jane.jwt'' \<and> ''jane.jwt'' \<noteq> []
   \<and> CHR '' '' \<notin> set ''Bearer''
   \<and> authenticateToken jane_decode 1700000500000 [''authorization'' \<mapsto> ''Basic jane.jwt'']
       = authenticateToken jane_decode 1700000500000 [''authorization'' \<mapsto> ''Bearer jane.jwt'']
   \<and> authenticateToken jane_decode 1700000500000 [''authorization'' \<mapsto> ''Basic jane.jwt'']
       = Inr jane_claims
   \<and> authenticateToken jane_decode 1700000500000 [''authorization'' \<mapsto> ''jane.jwt'']
       = Inl (Json_error 401 ''Access token required'')
   \<and> authenticateToken jane_decode 1700000500000 [''authorization'' \<mapsto> ''Bearer'']
       = Inl (Json_error 401 ''Access token required'')"
proof -
  have s: "CHR '' '' \<notin> set ''Basic''" and t: "CHR '' '' \<notin> set ''jane.jwt''"
    and n: "''jane.jwt'' \<noteq> []" and b: "CHR '' '' \<notin> set ''Bearer''"
    by simp_all
  note inst = scheme_word_not_checked [where decode = jane_decode and clock = 1700000500000
      and headers = Map.empty and scheme = "''Basic''" and token = "''jane.jwt''"
      and rest = "''jane.jwt''" and claims = jane_claims]
  have i1: "authenticateToken jane_decode 1700000500000 [''authorization'' \<mapsto> ''Basic jane.jwt'']
       = authenticateToken jane_decode 1700000500000 [''authorization'' \<mapsto> ''Bearer jane.jwt'']
     \<and> (jwt_verify jane_decode ''jane.jwt'' JWT_SECRET 1700000500000 = Inr jane_claims \<longrightarrow>
         authenticateToken jane_decode 1700000500000 [''authorization'' \<mapsto> ''Basic jane.jwt'']
           = Inr jane_claims)
     \<and> authenticateToken jane_decode 1700000500000 [''authorization'' \<mapsto> ''jane.jwt'']
       = Inl (Json_error 401 ''Access token required'')"
    using inst [where header = "''jane.jwt''"] s t n by (simp (no_asm_use), blast)
  have i2: "authenticateToken jane_decode 1700000500000 [''authorization'' \<mapsto> ''Bearer'']
       = Inl (Json_error 401 ''Access token required'')"
    using inst [where header = "''Bearer''"] b by (simp (no_asm_use), blast)
  from s t n b i1 i2 jane_verify show ?thesis by blast
qed

section \<open>Token lifetime\<close>

lemma days_in_seconds:
  "(T + 6 * 24 * 60 * 60 * 1000) div 1000 = T div 1000 + (518400::nat)"
  "(T + 8 * 24 * 60 * 60 * 1000) div 1000 = T div 1000 + (691200::nat)"
  by simp_all

lemma bearer_token:
  assumes "CHR '' '' \<notin> set s"
  shows "request_token (headers(''authorization'' \<mapsto> ''Bearer '' @ s)) = Some s"
proof -
  have b: "CHR '' '' \<notin> set ''Bearer''" by simp
  from request_token_second_piece [OF b, of headers s] assms show ?thesis
    by (simp add: js_split_no_sep)
qed

lemma authenticateToken_bearer:
  assumes "decode s = Some (Signed JWT_SECRET c)" and "s \<noteq> []" and "CHR '' '' \<notin> set s"
  shows "authenticateToken decode t (headers(''authorization'' \<mapsto> ''Bearer '' @ s)) =
           (if t div 1000 < exp c then Inr c
            else Inl (Json_error 403 ''Invalid or expired token''))"
  unfolding authenticateToken_def Let_def bearer_token [OF assms(3)]
  using assms(1,2) by (simp add: falsy_def str_def jwt_verify_def)

lemma signup_issued_created:
  assumes "issued_token (snd (signup e db body)) = Some tok"
  shows "signup e db body = (db @ [signup_doc e body], signup_ok e body)"
proof (rule disjE [OF signup_response [of e db body]])
  assume "\<exists>s m. snd (signup e db body) = Json_error s m \<and> fst (signup e db body) = db"
  with assms show ?thesis by auto
next
  assume "signup e db body = (db @ [signup_doc e body], signup_ok e body)
      \<and> 6 \<le> length (str (body ''password''))
      \<and> fullName (signup_doc e body) \<noteq> [] \<and> username (signup_doc e body) \<noteq> []
      \<and> email (signup_doc e body) \<noteq> []"
  then show ?thesis by (rule conjunct1)
qed

lemma login_issued_found:
  assumes "issued_token (login clock db body) = Some tok"
  shows "\<exists>u. findOne_email_or_username db (toLowerCase (str (body ''emailOrUsername'')))
                (toLowerCase (str (body ''emailOrUsername''))) = Some u
            \<and> u \<in> set db
            \<and> bcrypt_compare (str (body ''password'')) (password u)
            \<and> login clock db body =
                Json_auth 200 ''Login successful!''
                  (Signed JWT_SECRET
                     \<lparr>userId = user_id u, jwt_username = username u, jwt_email = email u,
                      iat = clock div 1000, exp = clock div 1000 + 604800\<rparr>)
                  [(''id'', ObjectId (user_id u)), (''fullName'', Str (fullName u)),
                   (''username'', Str (username u)), (''email'', Str (email u))]"
proof (cases "falsy (body ''emailOrUsername'') \<or> falsy (body ''password'')")
  case True
  then have "login clock db body = Json_error 400 ''Email/Username and password are required''"
    by (simp add: login_def)
  with assms show ?thesis by simp
next
  case False
  show ?thesis
  proof (cases "findOne_email_or_username db (toLowerCase (str (body ''emailOrUsername'')))
           (toLowerCase (str (body ''emailOrUsername'')))")
    case None
    with False have "login clock db body = Json_error 400 ''Invalid credentials''"
      by (simp add: login_def)
    with assms show ?thesis by simp
  next
    case (Some u)
    then have mem: "u \<in> set db"
      unfolding findOne_email_or_username_def by (rule find_in_set [THEN conjunct1])
    from False have nf: "\<not> falsy (body ''emailOrUsername'')" "\<not> falsy (body ''password'')"
      by simp_all
    note eq = login_found [OF nf Some, of clock]
    show ?thesis
    proof (cases "bcrypt_compare (str (body ''password'')) (password u)")
      case True
      with eq have "login clock db body =
          Json_auth 200 ''Login successful!''
            (Signed JWT_SECRET
               \<lparr>userId = user_id u, jwt_username = username u, jwt_email = email u,
                iat = clock div 1000, exp = clock div 1000 + 604800\<rparr>)
            [(''id'', ObjectId (user_id u)), (''fullName'', Str (fullName u)),
             (''username'', Str (username u)), (''email'', Str (email u))]"
        by (simp only: if_True)
      with Some mem True show ?thesis by (intro exI [of _ u] conjI)
    next
      case False
      with eq have "login clock db body = Json_error 400 ''Invalid credentials''"
        by (simp only: if_False)
      with assms show ?thesis by simp
    qed
  qed
qed

lemma issued_token_user:
  assumes issued: "issued_token r = Some tok"
    and origin: "(r = snd (signup e db body) \<and> T = now e) \<or> r = login T db body"
  shows "\<exists>u. ((r = snd (signup e db body) \<and> u = signup_doc e body
                  \<and> fst (signup e db body) = db @ [u])
               \<or> (r = login T db body
                  \<and> findOne_email_or_username db (toLowerCase (str (body ''emailOrUsername'')))
                      (toLowerCase (str (body ''emailOrUsername''))) = Some u
                  \<and> u \<in> set db
                  \<and> bcrypt_compare (str (body ''password'')) (password u)))
            \<and> tok = Signed JWT_SECRET
                 \<lparr>userId = user_id u, jwt_username = username u, jwt_email = email u,
                  iat = T div 1000, exp = T div 1000 + 604800\<rparr>
            \<and> user_object r =
                 [(''id'', ObjectId (user_id u)), (''fullName'', Str (fullName u)),
                  (''username'', Str (username u)), (''email'', Str (email u))]"
  using origin
proof
  assume a: "r = snd (signup e db body) \<and> T = now e"
  with issued have i: "issued_token (snd (signup e db body)) = Some tok" by simp
  note s = signup_issued_created [OF i]
  from s have f: "fst (signup e db body) = db @ [signup_doc e body]" by simp
  from s a have r: "r = signup_ok e body" by simp
  from issued r a have t: "tok = Signed JWT_SECRET
                 \<lparr>userId = user_id (signup_doc e body), jwt_username = username (signup_doc e body),
                  jwt_email = email (signup_doc e body),
                  iat = T div 1000, exp = T div 1000 + 604800\<rparr>"
    by (simp add: signup_ok_def signup_doc_def)
  from r have o: "user_object r =
                 [(''id'', ObjectId (user_id (signup_doc e body))),
                  (''fullName'', Str (fullName (signup_doc e body))),
                  (''username'', Str (username (signup_doc e body))),
                  (''email'', Str (email (signup_doc e body)))]"
    by (simp add: signup_ok_def signup_doc_def)
  from a have "r = snd (signup e db body)" by (rule conjunct1)
  with f have "(r = snd (signup e db body) \<and> signup_doc e body = signup_doc e body
                  \<and> fst (signup e db body) = db @ [signup_doc e body])
               \<or> (r = login T db body
                  \<and> findOne_email_or_username db (toLowerCase (str (body ''emailOrUsername'')))
                      (toLowerCase (str (body ''emailOrUsername''))) = Some (signup_doc e body)
                  \<and> signup_doc e body \<in> set db
                  \<and> bcrypt_compare (str (body ''password'')) (password (signup_doc e body)))"
    by (intro disjI1 conjI refl)
  with t o show ?thesis by (intro exI [of _ "signup_doc e body"] conjI)
next
  assume a: "r = login T db body"
  with issued have i: "issued_token (login T db body) = Some tok" by simp
  from login_issued_found [OF i] obtain u where
    f: "findOne_email_or_username db (toLowerCase (str (body ''emailOrUsername'')))
          (toLowerCase (str (body ''emailOrUsername''))) = Some u"
    and m: "u \<in> set db"
    and p: "bcrypt_compare (str (body ''password'')) (password u)"
    and l: "login T db body =
                Json_auth 200 ''Login successful!''
                  (Signed JWT_SECRET
                     \<lparr>userId = user_id u, jwt_username = username u, jwt_email = email u,
                      iat = T div 1000, exp = T div 1000 + 604800\<rparr>)
                  [(''id'', ObjectId (user_id u)), (''fullName'', Str (fullName u)),
                   (''username'', Str (username u)), (''email'', Str (email u))]"
    by (elim exE conjE)
  from i l have t: "tok = Signed JWT_SECRET
                 \<lparr>userId = user_id u, jwt_username = username u, jwt_email = email u,
                  iat = T div 1000, exp = T div 1000 + 604800\<rparr>"
    by simp
  from a l have o: "user_object r =
                 [(''id'', ObjectId (user_id u)), (''fullName'', Str (fullName u)),
                  (''username'', Str (username u)), (''email'', Str (email u))]"
    by simp
  from a f m p have "(r = snd (signup e db body) \<and> u = signup_doc e body
                  \<and> fst (signup e db body) = db @ [u])
               \<or> (r = login T db body
                  \<and> findOne_email_or_username db (toLowerCase (str (body ''emailOrUsername'')))
                      (toLowerCase (str (body ''emailOrUsername''))) = Some u
                  \<and> u \<in> set db
                  \<and> bcrypt_compare (str (body ''password'')) (password u))"
    by (intro disjI2 conjI)
  with t o show ?thesis by (intro exI [of _ u] conjI)
qed

text \<open>
  Claim C6. A token issued by signup or by login at clock reading \<open>T\<close> is signed with
  the server's key and carries the id, username and email of the user of that
  request: for signup, the document that this signup built from the request and
  appended to the collection; for login, the stored document that the lookup of the
  identifier returned and whose digest the submitted password verified. The user
  object of the response is the view of the same document. The token also carries
  the issuance time \<open>T\<close> in whole seconds and an expiry exactly 7 days (604800
  seconds) later. Sent back as \<open>Bearer <token>\<close>, it is accepted by the middleware,
  with these claims, 6 days after \<open>T\<close> and refused with 403 8 days after \<open>T\<close>; at
  any time it is accepted exactly while the clock, in seconds, is below the expiry.
\<close>

theorem token_lifetime:
  assumes issued: "issued_token r = Some tok"
    and origin: "(r = snd (signup e db body) \<and> T = now e) \<or> r = login T db body"
    and serialised: "decode s = Some tok" "s \<noteq> []" "CHR '' '' \<notin> set s"
  shows "token_key tok = JWT_SECRET
     \<and> (\<exists>u. ((r = snd (signup e db body) \<and> u = signup_doc e body
                  \<and> fst (signup e db body) = db @ [u])
               \<or> (r = login T db body
                  \<and> findOne_email_or_username db (toLowerCase (str (body ''emailOrUsername'')))
                      (toLowerCase (str (body ''emailOrUsername''))) = Some u
                  \<and> u \<in> set db
                  \<and> bcrypt_compare (str (body ''password'')) (password u)))
            \<and> userId (token_claims tok) = user_id u
            \<and> jwt_username (token_claims tok) = username u
            \<and> jwt_email (token_claims tok) = email u
            \<and> user_object r =
                 [(''id'', ObjectId (user_id u)), (''fullName'', Str (fullName u)),
                  (''username'', Str (username u)), (''email'', Str (email u))])
     \<and> iat (token_claims tok) = T div 1000
     \<and> exp (token_claims tok) = iat (token_claims tok) + 7 * 24 * 60 * 60
     \<and> authenticateToken decode (T + 6 * 24 * 60 * 60 * 1000)
           (headers(''authorization'' \<mapsto> ''Bearer '' @ s)) = Inr (token_claims tok)
     \<and> authenticateToken decode (T + 8 * 24 * 60 * 60 * 1000)
           (headers(''authorization'' \<mapsto> ''Bearer '' @ s))
         = Inl (Json_error 403 ''Invalid or expired token'')
     \<and> (\<forall>t. authenticateToken decode t (headers(''authorization'' \<mapsto> ''Bearer '' @ s)) =
            (if t div 1000 < T div 1000 + 7 * 24 * 60 * 60 then Inr (token_claims tok)
             else Inl (Json_error 403 ''Invalid or expired token'')))"
proof -
  from issued_token_user [OF issued origin] obtain u where
    who: "(r = snd (signup e db body) \<and> u = signup_doc e body
                  \<and> fst (signup e db body) = db @ [u])
               \<or> (r = login T db body
                  \<and> findOne_email_or_username db (toLowerCase (str (body ''emailOrUsername'')))
                      (toLowerCase (str (body ''emailOrUsername''))) = Some u
                  \<and> u \<in> set db
                  \<and> bcrypt_compare (str (body ''password'')) (password u))"
    and tok: "tok = Signed JWT_SECRET
           \<lparr>userId = user_id u, jwt_username = username u, jwt_email = email u,
            iat = T div 1000, exp = T div 1000 + 604800\<rparr>"
    and obj: "user_object r =
                 [(''id'', ObjectId (user_id u)), (''fullName'', Str (fullName u)),
                  (''username'', Str (username u)), (''email'', Str (email u))]"
    by (elim exE conjE)
  let ?c = "token_claims tok"
  have c: "tok = Signed JWT_SECRET ?c" "exp ?c = T div 1000 + 604800" "iat ?c = T div 1000"
    "token_key tok = JWT_SECRET"
    by (simp_all add: tok)
  have ids: "userId ?c = user_id u" "jwt_username ?c = username u" "jwt_email ?c = email u"
    by (simp_all add: tok)
  from who ids obj have user: "\<exists>u. ((r = snd (signup e db body) \<and> u = signup_doc e body
                  \<and> fst (signup e db body) = db @ [u])
               \<or> (r = login T db body
                  \<and> findOne_email_or_username db (toLowerCase (str (body ''emailOrUsername'')))
                      (toLowerCase (str (body ''emailOrUsername''))) = Some u
                  \<and> u \<in> set db
                  \<and> bcrypt_compare (str (body ''password'')) (password u)))
            \<and> userId ?c = user_id u \<and> jwt_username ?c = username u \<and> jwt_email ?c = email u
            \<and> user_object r =
                 [(''id'', ObjectId (user_id u)), (''fullName'', Str (fullName u)),
                  (''username'', Str (username u)), (''email'', Str (email u))]"
    by (intro exI [of _ u] conjI)
  from serialised(1) c(1) have d: "decode s = Some (Signed JWT_SECRET ?c)" by simp
  note auth = authenticateToken_bearer [where decode = decode and s = s and c = "?c"
      and headers = headers, OF d serialised(2,3)]
  have six: "authenticateToken decode (T + 6 * 24 * 60 * 60 * 1000)
           (headers(''authorization'' \<mapsto> ''Bearer '' @ s)) = Inr ?c"
    unfolding auth days_in_seconds c(2) by simp
  have eight: "authenticateToken decode (T + 8 * 24 * 60 * 60 * 1000)
           (headers(''authorization'' \<mapsto> ''Bearer '' @ s))
         = Inl (Json_error 403 ''Invalid or expired token'')"
    unfolding auth days_in_seconds c(2) by simp
  have gen: "\<forall>t. authenticateToken decode t (headers(''authorization'' \<mapsto> ''Bearer '' @ s)) =
            (if t div 1000 < T div 1000 + 7 * 24 * 60 * 60 then Inr ?c
             else Inl (Json_error 403 ''Invalid or expired token''))"
    unfolding auth c(2) by simp
  have e: "exp ?c = iat ?c + 7 * 24 * 60 * 60" by (simp add: c(2,3))
  from c(4) user c(3) e six eight gen show ?thesis by (intro conjI)
qed

theorem token_lifetime_witness:
  "issued_token (snd (signup bob_env [jane] bob_body))
     = Some (Signed JWT_SECRET
               \<lparr>userId = 3, jwt_username = ''bobby'', jwt_email = ''bob@x.com'',
                iat = 1700000200, exp = 1700605000\<rparr>)
   \<and> fst (signup bob_env [jane] bob_body) = [jane] @ [bob]
   \<and> user_id bob = 3 \<and> username bob = ''bobby'' \<and> email bob = ''bob@x.com''
   \<and> user_object (snd (signup bob_env [jane] bob_body))
       = [(''id'', ObjectId (user_id bob)), (''fullName'', Str (fullName bob)),
          (''username'', Str (username bob)), (''email'', Str (email bob))]
   \<and> authenticateToken
         [''bob.jwt'' \<mapsto> Signed JWT_SECRET
               \<lparr>userId = 3, jwt_username = ''bobby'', jwt_email = ''bob@x.com'',
                iat = 1700000200, exp = 1700605000\<rparr>]
         (1700000200000 + 6 * 24 * 60 * 60 * 1000)
         [''authorization'' \<mapsto> ''Bearer '' @ ''bob.jwt'']
       = Inr \<lparr>userId = 3, jwt_username = ''bobby'', jwt_email = ''bob@x.com'',
              iat = 1700000200, exp = 1700605000\<rparr>
   \<and> authenticateToken
         [''bob.jwt'' \<mapsto> Signed JWT_SECRET
               \<lparr>userId = 3, jwt_username = ''bobby'', jwt_email = ''bob@x.com'',
                iat = 1700000200, exp = 1700605000\<rparr>]
         (1700000200000 + 8 * 24 * 60 * 60 * 1000)
         [''authorization'' \<mapsto> ''Bearer '' @ ''bob.jwt'']
       = Inl (Json_error 403 ''Invalid or expired token'')
   \<and> issued_token (login 1700000500000 [mallory, jane]
          [''emailOrUsername'' \<mapsto> ''JaneDoe'', ''password'' \<mapsto> ''secret1''])
     = Some (Signed JWT_SECRET
               \<lparr>userId = 1, jwt_username = ''janedoe'', jwt_email = ''jane@x.com'',
                iat = 1700000500, exp = 1700605300\<rparr>)
   \<and> findOne_email_or_username [mallory, jane] (toLowerCase ''JaneDoe'') (toLowerCase ''JaneDoe'')
       = Some jane
   \<and> user_id jane = 1 \<and> username jane = ''janedoe'' \<and> email jane = ''jane@x.com''
   \<and> user_object (login 1700000500000 [mallory, jane]
          [''emailOrUsername'' \<mapsto> ''JaneDoe'', ''password'' \<mapsto> ''secret1''])
       = [(''id'', ObjectId (user_id jane)), (''fullName'', Str (fullName jane)),
          (''username'', Str (username jane)), (''email'', Str (email jane))]
   \<and> bcrypt_compare ''secret1'' (password jane)"
proof -
  let ?cb = "\<lparr>userId = 3, jwt_username = ''bobby'', jwt_email = ''bob@x.com'',
                iat = 1700000200, exp = 1700605000\<rparr>"
  let ?tb = "Signed JWT_SECRET ?cb"
  let ?rb = "snd (signup bob_env [jane] bob_body)"
  let ?cj = "\<lparr>userId = 1, jwt_username = ''janedoe'', jwt_email = ''jane@x.com'',
                iat = 1700000500, exp = 1700605300\<rparr>"
  let ?tj = "Signed JWT_SECRET ?cj"
  let ?lb = "[''emailOrUsername'' \<mapsto> ''JaneDoe'', ''password'' \<mapsto> ''secret1'']"
  let ?rj = "login 1700000500000 [mallory, jane] ?lb"
  have sb: "signup bob_env [jane] bob_body =
      ([jane, bob], Json_auth 201 ''Account created successfully!'' ?tb
         [(''id'', ObjectId 3), (''fullName'', Str ''Bob''),
          (''username'', Str ''bobby''), (''email'', Str ''bob@x.com'')])"
    by (simp add: route_defs example_defs string_defs)
  have ib: "issued_token ?rb = Some ?tb" by (simp add: sb)
  have ob: "?rb = snd (signup bob_env [jane] bob_body) \<and> 1700000200000 = now bob_env"
    by (simp add: bob_env_def)
  then have origin_b: "(?rb = snd (signup bob_env [jane] bob_body) \<and> 1700000200000 = now bob_env)
      \<or> ?rb = login 1700000200000 [jane] bob_body"
    by (rule disjI1)
  have db: "[''bob.jwt'' \<mapsto> ?tb] ''bob.jwt'' = Some ?tb" by simp
  have ne: "''bob.jwt'' \<noteq> []" and sp: "CHR '' '' \<notin> set ''bob.jwt''" by simp_all
  have tcb: "token_claims ?tb = ?cb" by simp
  note inst_b = token_lifetime [where decode = "[''bob.jwt'' \<mapsto> ?tb]" and s = "''bob.jwt''"
      and headers = Map.empty and tok = "?tb" and T = 1700000200000 and r = "?rb"
      and e = bob_env and db = "[jane]" and body = bob_body, OF ib origin_b db ne sp,
      unfolded tcb]
  have lg: "login 1700000200000 [jane] bob_body
      = Json_error 400 ''Email/Username and password are required''"
    by (simp add: login_def falsy_def bob_body_def)
  have not_login: "?rb \<noteq> login 1700000200000 [jane] bob_body"
    by (simp add: sb lg)
  from inst_b [THEN conjunct2, THEN conjunct1] obtain u where
    w: "(?rb = snd (signup bob_env [jane] bob_body) \<and> u = signup_doc bob_env bob_body
            \<and> fst (signup bob_env [jane] bob_body) = [jane] @ [u])
        \<or> (?rb = login 1700000200000 [jane] bob_body
            \<and> findOne_email_or_username [jane] (toLowerCase (str (bob_body ''emailOrUsername'')))
                 (toLowerCase (str (bob_body ''emailOrUsername''))) = Some u
            \<and> u \<in> set [jane]
            \<and> bcrypt_compare (str (bob_body ''password'')) (password u))"
    and o: "user_object ?rb =
                 [(''id'', ObjectId (user_id u)), (''fullName'', Str (fullName u)),
                  (''username'', Str (username u)), (''email'', Str (email u))]"
    by (elim exE conjE)
  from w not_login have "u = signup_doc bob_env bob_body
      \<and> fst (signup bob_env [jane] bob_body) = [jane] @ [u]"
    by (elim disjE conjE) (intro conjI, assumption+, (erule notE, assumption)+)
  moreover have "signup_doc bob_env bob_body = bob"
    by (simp add: signup_doc_def bob_env_def bob_body_def bob_def bcrypt_hash_def str_def
        string_defs)
  ultimately have ub: "u = bob" and fb: "fst (signup bob_env [jane] bob_body) = [jane] @ [bob]"
    by simp_all
  from o ub have objb: "user_object ?rb =
       [(''id'', ObjectId (user_id bob)), (''fullName'', Str (fullName bob)),
        (''username'', Str (username bob)), (''email'', Str (email bob))]"
    by simp
  have selb: "user_id bob = 3" "username bob = ''bobby''" "email bob = ''bob@x.com''"
    by (simp_all add: bob_def)
  note rest_b = inst_b [THEN conjunct2, THEN conjunct2, THEN conjunct2, THEN conjunct2]
  from rest_b have six:
    "authenticateToken [''bob.jwt'' \<mapsto> ?tb] (1700000200000 + 6 * 24 * 60 * 60 * 1000)
         [''authorization'' \<mapsto> ''Bearer '' @ ''bob.jwt''] = Inr ?cb"
    by (rule conjunct1)
  from rest_b [THEN conjunct2] have eight:
    "authenticateToken [''bob.jwt'' \<mapsto> ?tb] (1700000200000 + 8 * 24 * 60 * 60 * 1000)
         [''authorization'' \<mapsto> ''Bearer '' @ ''bob.jwt'']
       = Inl (Json_error 403 ''Invalid or expired token'')"
    by (rule conjunct1)
  have lj: "?rj = Json_auth 200 ''Login successful!'' ?tj
         [(''id'', ObjectId 1), (''fullName'', Str ''Jane Doe''),
          (''username'', Str ''janedoe''), (''email'', Str ''jane@x.com'')]"
    by (simp add: route_defs example_defs string_defs)
  have ij: "issued_token ?rj = Some ?tj" by (simp add: lj)
  have "?rj = login 1700000500000 [mallory, jane] ?lb" by (rule refl)
  then have origin_j: "(?rj = snd (signup jane_env [mallory, jane] ?lb)
        \<and> 1700000500000 = now jane_env)
      \<or> ?rj = login 1700000500000 [mallory, jane] ?lb"
    by (rule disjI2)
  have dj: "[''jane2.jwt'' \<mapsto> ?tj] ''jane2.jwt'' = Some ?tj" by simp
  have nej: "''jane2.jwt'' \<noteq> []" and spj: "CHR '' '' \<notin> set ''jane2.jwt''" by simp_all
  note inst_j = token_lifetime [where decode = "[''jane2.jwt'' \<mapsto> ?tj]" and s = "''jane2.jwt''"
      and headers = Map.empty and tok = "?tj" and T = 1700000500000 and r = "?rj"
      and e = jane_env and db = "[mallory, jane]" and body = "?lb", OF ij origin_j dj nej spj]
  have sg: "signup jane_env [mallory, jane] ?lb
      = ([mallory, jane], Json_error 400 ''All fields are required'')"
    by (simp add: signup_def falsy_def)
  have not_signup: "?rj \<noteq> snd (signup jane_env [mallory, jane] ?lb)"
    by (simp add: lj sg)
  have idj: "str (?lb ''emailOrUsername'') = ''JaneDoe''" "str (?lb ''password'') = ''secret1''"
    by (simp_all add: str_def)
  from inst_j [THEN conjunct2, THEN conjunct1] obtain v where
    wj: "(?rj = snd (signup jane_env [mallory, jane] ?lb) \<and> v = signup_doc jane_env ?lb
            \<and> fst (signup jane_env [mallory, jane] ?lb) = [mallory, jane] @ [v])
        \<or> (?rj = login 1700000500000 [mallory, jane] ?lb
            \<and> findOne_email_or_username [mallory, jane]
                 (toLowerCase (str (?lb ''emailOrUsername'')))
                 (toLowerCase (str (?lb ''emailOrUsername''))) = Some v
            \<and> v \<in> set [mallory, jane]
            \<and> bcrypt_compare (str (?lb ''password'')) (password v))"
    and oj: "user_object ?rj =
                 [(''id'', ObjectId (user_id v)), (''fullName'', Str (fullName v)),
                  (''username'', Str (username v)), (''email'', Str (email v))]"
    by (elim exE conjE)
  from wj not_signup have
    "findOne_email_or_username [mallory, jane] (toLowerCase (str (?lb ''emailOrUsername'')))
         (toLowerCase (str (?lb ''emailOrUsername''))) = Some v
     \<and> bcrypt_compare (str (?lb ''password'')) (password v)"
    by (elim disjE conjE) ((erule notE, assumption)+, intro conjI, assumption+)
  then have fj': "findOne_email_or_username [mallory, jane] (toLowerCase ''JaneDoe'')
         (toLowerCase ''JaneDoe'') = Some v"
    and pj': "bcrypt_compare ''secret1'' (password v)"
    unfolding idj by (rule conjunct1, rule conjunct2)
  have fj: "findOne_email_or_username [mallory, jane] (toLowerCase ''JaneDoe'')
         (toLowerCase ''JaneDoe'') = Some jane"
    by (simp add: findOne_email_or_username_def mallory_def jane_def string_defs)
  with fj' have vj: "v = jane" by simp
  from oj vj have objj: "user_object ?rj =
       [(''id'', ObjectId (user_id jane)), (''fullName'', Str (fullName jane)),
        (''username'', Str (username jane)), (''email'', Str (email jane))]"
    by simp
  from pj' vj have pj: "bcrypt_compare ''secret1'' (password jane)" by simp
  have selj: "user_id jane = 1" "username jane = ''janedoe''" "email jane = ''jane@x.com''"
    by (simp_all add: jane_def)
  from ib fb selb objb six eight ij fj selj objj pj show ?thesis by (intro conjI)
qed

section \<open>User views and the profile route\<close>

lemma find_None_no_id: "(\<forall>u \<in> set db. user_id u \<noteq> i) \<Longrightarrow> findById db i = None"
  by (simp add: findById_def find_None_iff)

lemma find_Some_id:
  assumes "\<exists>u \<in> set db. user_id u = i"
  shows "\<exists>u \<in> set db. user_id u = i \<and> findById db i = Some u"
proof (cases "findById db i")
  case None
  with assms show ?thesis by (auto simp: findById_def find_None_iff)
next
  case (Some u)
  then have "find (\<lambda>u. user_id u = i) db = Some u" by (simp add: findById_def)
  then have "u \<in> set db \<and> user_id u = i" by (rule find_in_set)
  with Some show ?thesis by blast
qed

lemma profile_found:
  "findById db (userId req_user) = Some u \<Longrightarrow>
     profile db req_user =
       Json_user 200 [(''id'', ObjectId (user_id u)), (''fullName'', Str (fullName u)),
                      (''username'', Str (username u)), (''email'', Str (email u)),
                      (''createdAt'', Date (createdAt u))]"
  by (simp add: profile_def)

lemma profile_missing:
  "findById db (userId req_user) = None \<Longrightarrow> profile db req_user = Json_error 404 ''User not found''"
  by (simp add: profile_def)

lemma exposes_error: "\<not> exposes_password (Json_error s m)"
  by (simp add: exposes_password_def)

lemma profile_safe: "\<not> exposes_password (profile db req_user)"
proof (cases "findById db (userId req_user)")
  case None
  then show ?thesis by (simp add: profile_missing exposes_error)
next
  case (Some u)
  then show ?thesis by (simp add: profile_found exposes_password_def)
qed

lemma signup_safe: "\<not> exposes_password (snd (signup e db body))"
proof (rule disjE [OF signup_response [of e db body]])
  assume "\<exists>s m. snd (signup e db body) = Json_error s m \<and> fst (signup e db body) = db"
  then obtain s m where "snd (signup e db body) = Json_error s m" by blast
  then show ?thesis by (simp add: exposes_error)
next
  assume "signup e db body = (db @ [signup_doc e body], signup_ok e body)
      \<and> 6 \<le> length (str (body ''password''))
      \<and> fullName (signup_doc e body) \<noteq> [] \<and> username (signup_doc e body) \<noteq> []
      \<and> email (signup_doc e body) \<noteq> []"
  then have "snd (signup e db body) = signup_ok e body" by simp
  then show ?thesis by (simp add: signup_ok_def exposes_password_def)
qed

lemma login_safe: "\<not> exposes_password (login clock db body)"
proof (rule disjE [OF login_response [of clock db body]])
  assume "\<exists>m. login clock db body = Json_error 400 m"
  then obtain m where "login clock db body = Json_error 400 m" by blast
  then show ?thesis by (simp add: exposes_error)
next
  assume "\<exists>u \<in> set db. login clock db body =
          Json_auth 200 ''Login successful!''
            (Signed JWT_SECRET
               \<lparr>userId = user_id u, jwt_username = username u, jwt_email = email u,
                iat = clock div 1000, exp = clock div 1000 + 604800\<rparr>)
            [(''id'', ObjectId (user_id u)), (''fullName'', Str (fullName u)),
             (''username'', Str (username u)), (''email'', Str (email u))]"
  then obtain u where "u \<in> set db" and "login clock db body =
          Json_auth 200 ''Login successful!''
            (Signed JWT_SECRET
               \<lparr>userId = user_id u, jwt_username = username u, jwt_email = email u,
                iat = clock div 1000, exp = clock div 1000 + 604800\<rparr>)
            [(''id'', ObjectId (user_id u)), (''fullName'', Str (fullName u)),
             (''username'', Str (username u)), (''email'', Str (email u))]"
    ..
  then show ?thesis by (simp add: exposes_password_def)
qed

lemma get_profile_safe: "\<not> exposes_password (get_profile decode clock db headers)"
proof (cases "authenticateToken decode clock headers")
  case (Inl sent)
  then have "sent = Json_error 401 ''Access token required''
      \<or> sent = Json_error 403 ''Invalid or expired token''"
    by (auto simp: authenticateToken_def Let_def split: if_splits sum.splits)
  with Inl show ?thesis by (auto simp: get_profile_def exposes_error)
next
  case (Inr req_user)
  then show ?thesis by (simp add: get_profile_def profile_safe)
qed

lemma signup_view_keys:
  "issued_token (snd (signup e db body)) \<noteq> None \<longrightarrow>
   map fst (user_object (snd (signup e db body))) = [''id'', ''fullName'', ''username'', ''email'']"
proof (rule disjE [OF signup_response [of e db body]])
  assume "\<exists>s m. snd (signup e db body) = Json_error s m \<and> fst (signup e db body) = db"
  then show ?thesis by auto
next
  assume "signup e db body = (db @ [signup_doc e body], signup_ok e body)
      \<and> 6 \<le> length (str (body ''password''))
      \<and> fullName (signup_doc e body) \<noteq> [] \<and> username (signup_doc e body) \<noteq> []
      \<and> email (signup_doc e body) \<noteq> []"
  then have "snd (signup e db body) = signup_ok e body" by simp
  then show ?thesis by (simp add: signup_ok_def)
qed

lemma login_view_keys:
  "issued_token (login clock db body) \<noteq> None \<longrightarrow>
   map fst (user_object (login clock db body)) = [''id'', ''fullName'', ''username'', ''email'']"
proof (rule disjE [OF login_response [of clock db body]])
  assume "\<exists>m. login clock db body = Json_error 400 m"
  then show ?thesis by auto
next
  assume "\<exists>u \<in> set db. login clock db body =
          Json_auth 200 ''Login successful!''
            (Signed JWT_SECRET
               \<lparr>userId = user_id u, jwt_username = username u, jwt_email = email u,
                iat = clock div 1000, exp = clock div 1000 + 604800\<rparr>)
            [(''id'', ObjectId (user_id u)), (''fullName'', Str (fullName u)),
             (''username'', Str (username u)), (''email'', Str (email u))]"
  then obtain u where "u \<in> set db" and "login clock db body =
          Json_auth 200 ''Login successful!''
            (Signed JWT_SECRET
               \<lparr>userId = user_id u, jwt_username = username u, jwt_email = email u,
                iat = clock div 1000, exp = clock div 1000 + 604800\<rparr>)
            [(''id'', ObjectId (user_id u)), (''fullName'', Str (fullName u)),
             (''username'', Str (username u)), (''email'', Str (email u))]"
    ..
  then show ?thesis by simp
qed

lemma signup_mallory_after_jane:
  "issued_token (snd (signup mallory_env [jane] mallory_body)) \<noteq> None"
  by (simp add: route_defs example_defs string_defs)

text \<open>
  Claim C9. No response of signup, of login, of the profile handler or of the whole
  profile route carries the stored password: the user object has no key \<open>password\<close>
  or \<open>passwordHash\<close> and no value that is a stored password. On success the user
  object of signup and of login has exactly the keys \<open>id\<close>, \<open>fullName\<close>, \<open>username\<close>,
  \<open>email\<close>. The profile handler answers 404 \<open>User not found\<close> when no stored
  document has the id of the claims, and otherwise returns the view of a document with
  that id, which has \<open>createdAt\<close> as well.
\<close>

theorem user_view_excludes_password:
  "\<not> exposes_password (snd (signup e db body))
   \<and> \<not> exposes_password (login clock db body')
   \<and> \<not> exposes_password (profile db req_user)
   \<and> \<not> exposes_password (get_profile decode clock db headers)
   \<and> (issued_token (snd (signup e db body)) \<noteq> None \<longrightarrow>
        map fst (user_object (snd (signup e db body))) = [''id'', ''fullName'', ''username'', ''email''])
   \<and> (issued_token (login clock db body') \<noteq> None \<longrightarrow>
        map fst (user_object (login clock db body')) = [''id'', ''fullName'', ''username'', ''email''])
   \<and> ((\<forall>u \<in> set db. user_id u \<noteq> userId req_user) \<longrightarrow>
        profile db req_user = Json_error 404 ''User not found'')
   \<and> ((\<exists>u \<in> set db. user_id u = userId req_user) \<longrightarrow>
        (\<exists>u \<in> set db. user_id u = userId req_user \<and>
           profile db req_user =
             Json_user 200 [(''id'', ObjectId (user_id u)), (''fullName'', Str (fullName u)),
                            (''username'', Str (username u)), (''email'', Str (email u)),
                            (''createdAt'', Date (createdAt u))]))"
proof -
  have nf: "(\<forall>u \<in> set db. user_id u \<noteq> userId req_user) \<longrightarrow>
        profile db req_user = Json_error 404 ''User not found''"
    by (simp add: find_None_no_id profile_missing)
  have fd: "(\<exists>u \<in> set db. user_id u = userId req_user) \<longrightarrow>
        (\<exists>u \<in> set db. user_id u = userId req_user \<and>
           profile db req_user =
             Json_user 200 [(''id'', ObjectId (user_id u)), (''fullName'', Str (fullName u)),
                            (''username'', Str (username u)), (''email'', Str (email u)),
                            (''createdAt'', Date (createdAt u))])"
  proof
    assume "\<exists>u \<in> set db. user_id u = userId req_user"
    from find_Some_id [OF this] obtain u where "u \<in> set db" "user_id u = userId req_user"
      "findById db (userId req_user) = Some u" by blast
    with profile_found [of db req_user u] show "\<exists>u \<in> set db. user_id u = userId req_user \<and>
           profile db req_user =
             Json_user 200 [(''id'', ObjectId (user_id u)), (''fullName'', Str (fullName u)),
                            (''username'', Str (username u)), (''email'', Str (email u)),
                            (''createdAt'', Date (createdAt u))]"
      by blast
  qed
  show ?thesis
    by (intro conjI signup_safe login_safe profile_safe get_profile_safe
        signup_view_keys login_view_keys nf fd)
qed

theorem user_view_excludes_password_witness:
  "issued_token (snd (signup mallory_env [jane] mallory_body)) \<noteq> None
   \<and> map fst (user_object (snd (signup mallory_env [jane] mallory_body)))
       = [''id'', ''fullName'', ''username'', ''email'']
   \<and> \<not> exposes_password (profile [jane] jane_claims)
   \<and> (\<exists>u \<in> set [jane]. user_id u = userId jane_claims)
   \<and> profile [jane] jane_claims =
         Json_user 200 [(''id'', ObjectId (user_id jane)), (''fullName'', Str (fullName jane)),
                        (''username'', Str (username jane)), (''email'', Str (email jane)),
                        (''createdAt'', Date (createdAt jane))]
   \<and> userId (jane_claims\<lparr>userId := 7\<rparr>) \<notin> user_id ` set [jane]
   \<and> profile [jane] (jane_claims\<lparr>userId := 7\<rparr>) = Json_error 404 ''User not found''"
proof -
  note a = user_view_excludes_password [where e = mallory_env and db = "[jane]"
      and body = mallory_body and req_user = jane_claims]
  note b = user_view_excludes_password [where db = "[jane]"
      and req_user = "jane_claims\<lparr>userId := 7\<rparr>"]
  have k: "map fst (user_object (snd (signup mallory_env [jane] mallory_body)))
       = [''id'', ''fullName'', ''username'', ''email'']"
    using a [THEN conjunct2, THEN conjunct2, THEN conjunct2, THEN conjunct2, THEN conjunct1]
      signup_mallory_after_jane by (rule mp)
  have p: "\<not> exposes_password (profile [jane] jane_claims)"
    using a [THEN conjunct2, THEN conjunct2] by (rule conjunct1)
  have ex: "\<exists>u \<in> set [jane]. user_id u = userId jane_claims"
    by (simp add: jane_def jane_claims_def)
  have "\<exists>u \<in> set [jane]. user_id u = userId jane_claims \<and>
           profile [jane] jane_claims =
             Json_user 200 [(''id'', ObjectId (user_id u)), (''fullName'', Str (fullName u)),
                            (''username'', Str (username u)), (''email'', Str (email u)),
                            (''createdAt'', Date (createdAt u))]"
    using a [THEN conjunct2, THEN conjunct2, THEN conjunct2, THEN conjunct2, THEN conjunct2,
        THEN conjunct2, THEN conjunct2] ex by (rule mp)
  then have f: "profile [jane] jane_claims =
         Json_user 200 [(''id'', ObjectId (user_id jane)), (''fullName'', Str (fullName jane)),
                        (''username'', Str (username jane)), (''email'', Str (email jane)),
                        (''createdAt'', Date (createdAt jane))]"
    by simp
  have no: "\<forall>u \<in> set [jane]. user_id u \<noteq> userId (jane_claims\<lparr>userId := 7\<rparr>)"
    by (simp add: jane_def)
  have n: "profile [jane] (jane_claims\<lparr>userId := 7\<rparr>) = Json_error 404 ''User not found''"
    using b [THEN conjunct2, THEN conjunct2, THEN conjunct2, THEN conjunct2, THEN conjunct2,
        THEN conjunct2, THEN conjunct1] no by (rule mp)
  have nobody: "userId (jane_claims\<lparr>userId := 7\<rparr>) \<notin> user_id ` set [jane]"
    by (simp add: jane_def)
  from signup_mallory_after_jane k p ex f nobody n show ?thesis by (intro conjI)
qed

end
